theory Spec2Isabelle
  imports Main "HOL-Library.Sublist"
begin

section \<open>Python values\<close>

text \<open>
  The workflow engine of the visual builder (\<^verbatim>\<open>workflow_runner.py\<close>) and its configuration
  helpers (\<^verbatim>\<open>mcp_helpers.py\<close>) are embedded as HOL functions. Text is \<open>string\<close>, with a
  character standing for a code point below 256. A raised exception is the \<open>Inl\<close> of a sum.
\<close>

datatype exn =
    IndexError
  | KeyError
  | AttributeError
  | TypeError
  | ValueError
  | UnicodeEncodeError
  | LibraryError string

text \<open>
  A Python float is kept as the number it denotes (mantissa and binary exponent), or as one
  of the three special values; the code only ever tests a float for being zero.
\<close>

datatype pyfloat = Finite int int | Infinite bool | NaN

text \<open>
  What \<^verbatim>\<open>json.loads\<close> can return. \<open>JNull\<close> is Python's \<^verbatim>\<open>None\<close>. A \<^verbatim>\<open>dict\<close> keeps its
  insertion order, which \<^verbatim>\<open>locate_config\<close> iterates in, so it is an association list.
\<close>

datatype json =
    JNull
  | JBool bool
  | JInt int
  | JFloat pyfloat
  | JStr string
  | JArr "json list"
  | JObj "(string \<times> json) list"

text \<open>Truth value testing, as \<^verbatim>\<open>if cmd:\<close> and \<^verbatim>\<open>if not command:\<close> apply it.\<close>

fun truthy :: "json \<Rightarrow> bool" where
  "truthy JNull = False"
| "truthy (JBool b) = b"
| "truthy (JInt i) = (i \<noteq> 0)"
| "truthy (JFloat f) = (case f of Finite m e \<Rightarrow> m \<noteq> 0 | Infinite s \<Rightarrow> True | NaN \<Rightarrow> True)"
| "truthy (JStr s) = (s \<noteq> [])"
| "truthy (JArr xs) = (xs \<noteq> [])"
| "truthy (JObj d) = (d \<noteq> [])"

text \<open>\<^verbatim>\<open>d.get(k, default)\<close> and \<^verbatim>\<open>d[k] = v\<close> on a dict.\<close>

definition dict_get :: "(string \<times> json) list \<Rightarrow> string \<Rightarrow> json \<Rightarrow> json" where
  "dict_get d k dflt = (case map_of d k of Some v \<Rightarrow> v | None \<Rightarrow> dflt)"

fun dict_set :: "(string \<times> json) list \<Rightarrow> string \<Rightarrow> json \<Rightarrow> (string \<times> json) list" where
  "dict_set [] k v = [(k, v)]"
| "dict_set ((k', v') # d) k v = (if k' = k then (k, v) # d else (k', v') # dict_set d k v)"

section \<open>Locating the launch parameters (\<^verbatim>\<open>mcp_helpers.locate_config\<close>)\<close>

type_synonym located = "json \<times> json \<times> json \<times> json"

definition all_none :: located where
  "all_none = (JNull, JNull, JNull, JNull)"

text \<open>
  \<open>locate_items\<close> is the \<^verbatim>\<open>for key, value in config_dict.items()\<close> loop: only values that
  are dicts are searched, and a nested result counts as found when its command is truthy.
\<close>

fun locate_config :: "json \<Rightarrow> located"
  and locate_items :: "(string \<times> json) list \<Rightarrow> located" where
  "locate_config (JObj d) =
     (case map_of d ''command'' of
        Some c \<Rightarrow>
          (c, dict_get d ''args'' (JArr []), dict_get d ''env'' (JObj []),
           dict_get d ''disabled_tools'' (JArr []))
      | None \<Rightarrow> locate_items d)"
| "locate_config JNull = all_none"
| "locate_config (JBool b) = all_none"
| "locate_config (JInt i) = all_none"
| "locate_config (JFloat f) = all_none"
| "locate_config (JStr s) = all_none"
| "locate_config (JArr xs) = all_none"
| "locate_items [] = all_none"
| "locate_items ((key, v) # rest) =
     (case v of
        JObj sub \<Rightarrow>
          (let r = locate_config (JObj sub) in if truthy (fst r) then r else locate_items rest)
      | _ \<Rightarrow> locate_items rest)"

section \<open>Text helpers\<close>

text \<open>
  \<^verbatim>\<open>str.lower\<close>, \<^verbatim>\<open>str.strip\<close>, \<^verbatim>\<open>str.startswith\<close> and \<^verbatim>\<open>str.isdigit\<close> on code points below 256.
\<close>

definition lower_char :: "char \<Rightarrow> char" where
  "lower_char c =
     (let n = (of_char c :: nat)
      in if (65 \<le> n \<and> n \<le> 90) \<or> (192 \<le> n \<and> n \<le> 222 \<and> n \<noteq> 215)
         then char_of (n + 32) else c)"

definition lower :: "string \<Rightarrow> string" where
  "lower s = map lower_char s"

definition isspace :: "char \<Rightarrow> bool" where
  "isspace c =
     (let n = (of_char c :: nat)
      in (9 \<le> n \<and> n \<le> 13) \<or> (28 \<le> n \<and> n \<le> 32) \<or> n = 133 \<or> n = 160)"

definition strip :: "string \<Rightarrow> string" where
  "strip s = rev (dropWhile isspace (rev (dropWhile isspace s)))"

definition startswith :: "string \<Rightarrow> string \<Rightarrow> bool" where
  "startswith s p = prefix p s"

definition isdigit_char :: "char \<Rightarrow> bool" where
  "isdigit_char c =
     (let n = (of_char c :: nat)
      in (48 \<le> n \<and> n \<le> 57) \<or> n = 178 \<or> n = 179 \<or> n = 185)"

definition isdigit :: "string \<Rightarrow> bool" where
  "isdigit s = (s \<noteq> [] \<and> list_all isdigit_char s)"

section \<open>Capabilities and agents\<close>

text \<open>
  The operations imported from \<^verbatim>\<open>strands_tools\<close>, and \<^verbatim>\<open>think_tool\<close>, which the module
  defines itself and registers under the name \<^verbatim>\<open>think\<close>.
\<close>

datatype builtin_op =
    File_read | File_write | Editor | Shell | Http_request | Python_repl | Calculator
  | Use_aws | Retrieve | Nova_reels | Memory | Environment | Generate_image | Image_reader
  | Journal | Think_tool | Load_tool | Swarm | Current_time | Sleep | Agent_graph | Cron
  | Slack | Speak | Stop | Workflow | Batch

text \<open>A tool reported by a client of an external process; only its name is read.\<close>

datatype mcp_tool = MCPAgentTool (mcp_tool_name: string)

text \<open>
  A capability is a built-in operation, a tool of an external process, the placeholder
  function of an agent-typed tool, or the wrapper that \<^verbatim>\<open>_create_orchestrator\<close> puts around an
  agent. An agent is what the \<^verbatim>\<open>StrandsAgent\<close> constructor was given, with the name and the
  description that \<^verbatim>\<open>create_agent\<close> sets on it afterwards (\<open>None\<close> on an agent built elsewhere,
  which has neither attribute).
\<close>

datatype capability =
    BuiltinTool builtin_op
  | MCPTool mcp_tool
  | AgentToolFunction string
  | AgentWrapper (wrapper_name: string) (wrapper_doc: string) (captured: strands_agent)
and strands_agent =
    StrandsAgent (model: "string option") (system_prompt: "string option")
      (tools: "capability list") (labels: "(string \<times> string option) option")

section \<open>The libraries the code calls\<close>

text \<open>
  The regular expressions of \<^verbatim>\<open>_recover_json\<close>, in the order of their use: a comma before a
  closing brace, a comma before a closing bracket, a bare key, a quoted key with a string, a
  number or a boolean, and a loose key and value.
\<close>

datatype regex =
    CommaBrace | CommaBracket | BareKey | StringPair | NumPair | BoolPair | LoosePair

text \<open>
  An event handed to a callback handler during an agent call: one with a \<^verbatim>\<open>delta\<close> key,
  carrying the text \<^verbatim>\<open>json.dumps\<close> gives for it after the handler's filtering, or any other.
\<close>

datatype cb_event = Delta string | Other

text \<open>
  The debug lines of \<^verbatim>\<open>parse_config\<close>, each with the value it interpolates: the argument
  (cut to 200 characters when longer), the notice of an empty argument, the strictly parsed
  value, the exception of the strict parse, and the recovered value.
\<close>

datatype printed =
    ParsingConfig string
  | EmptyConfig
  | ParsedConfig json
  | ParsingFailed exn
  | RecoveredConfig json

text \<open>
  The behaviour of everything outside the repository is a parameter: the \<^verbatim>\<open>json\<close> and
  \<^verbatim>\<open>re\<close> modules, \<^verbatim>\<open>int\<close> and \<^verbatim>\<open>float\<close>, the MCP client (construction,
  \<^verbatim>\<open>start\<close> and \<^verbatim>\<open>list_tools_sync\<close> together), the model catalogue, the \<^verbatim>\<open>StrandsAgent\<close>
  constructor (\<open>Some e\<close> when it raises \<open>e\<close>), the call of an agent on a message (the events
  its handlers see, then its answer as text or the exception it raises), the clock
  (the text of the \<open>n\<close>-th reading, as \<^verbatim>\<open>json.dumps(..., default=str)\<close> renders it), and
  the standard output for the debug lines of the parser (\<open>Some e\<close> when writing the line
  raises \<open>e\<close>, as it does for a text the stream cannot encode). Each function that can
  raise returns a sum.
\<close>

record pylib =
  json_loads :: "string \<Rightarrow> exn + json"
  re_sub :: "regex \<Rightarrow> string \<Rightarrow> string"
  re_finditer :: "regex \<Rightarrow> string \<Rightarrow> exn + (string \<times> string) list"
  re_match_decimal :: "string \<Rightarrow> exn + bool"
  py_int :: "string \<Rightarrow> exn + int"
  py_float :: "string \<Rightarrow> exn + pyfloat"
  mcp_list_tools :: "json \<Rightarrow> json \<Rightarrow> json \<Rightarrow> exn + mcp_tool list"
  get_model_with_cross_region_profile :: "string \<Rightarrow> exn + string"
  strands_agent_init :: "string option \<Rightarrow> string option \<Rightarrow> capability list \<Rightarrow> exn option"
  agent_call :: "strands_agent \<Rightarrow> string \<Rightarrow> cb_event list \<times> (exn + string)"
  utcnow_json :: "nat \<Rightarrow> string"
  print_debug :: "printed \<Rightarrow> exn option"

section \<open>The configuration parser (\<^verbatim>\<open>mcp_helpers.parse_config\<close>)\<close>

text \<open>The loop over the matches of the quoted-string pattern: \<^verbatim>\<open>result[key] = value\<close>.\<close>

fun store_strings :: "(string \<times> string) list \<Rightarrow> (string \<times> json) list \<Rightarrow> (string \<times> json) list" where
  "store_strings [] result = result"
| "store_strings ((key, v) # ms) result = store_strings ms (dict_set result key (JStr v))"

text \<open>
  The loop over the matches of the number pattern. The conversion has a handler of its own,
  which stores the matched text instead.
\<close>

definition convert_number :: "pylib \<Rightarrow> string \<Rightarrow> json" where
  "convert_number L v =
     (if CHR ''.'' \<in> set v
      then (case py_float L v of Inr f \<Rightarrow> JFloat f | Inl e \<Rightarrow> JStr v)
      else (case py_int L v of Inr i \<Rightarrow> JInt i | Inl e \<Rightarrow> JStr v))"

fun store_numbers :: "pylib \<Rightarrow> (string \<times> string) list \<Rightarrow> (string \<times> json) list \<Rightarrow> (string \<times> json) list" where
  "store_numbers L [] result = result"
| "store_numbers L ((key, v) # ms) result =
     store_numbers L ms (dict_set result key (convert_number L v))"

fun store_bools :: "(string \<times> string) list \<Rightarrow> (string \<times> json) list \<Rightarrow> (string \<times> json) list" where
  "store_bools [] result = result"
| "store_bools ((key, v) # ms) result =
     store_bools ms (dict_set result key (JBool (lower v = ''true'')))"

text \<open>The body of the second \<^verbatim>\<open>try\<close>, up to the test \<^verbatim>\<open>if result:\<close>.\<close>

definition extract_pairs :: "pylib \<Rightarrow> string \<Rightarrow> exn + (string \<times> json) list" where
  "extract_pairs L malformed_json =
     (case re_finditer L StringPair malformed_json of
        Inl e \<Rightarrow> Inl e
      | Inr ss \<Rightarrow>
          (case re_finditer L NumPair malformed_json of
             Inl e \<Rightarrow> Inl e
           | Inr ns \<Rightarrow>
               (case re_finditer L BoolPair malformed_json of
                  Inl e \<Rightarrow> Inl e
                | Inr bs \<Rightarrow> Inr (store_bools bs (store_numbers L ns (store_strings ss []))))))"

text \<open>The loop of the third \<^verbatim>\<open>try\<close>; here a failing conversion leaves the loop.\<close>

definition coerce :: "pylib \<Rightarrow> string \<Rightarrow> exn + json" where
  "coerce L v =
     (if lower v = ''true'' then Inr (JBool True)
      else if lower v = ''false'' then Inr (JBool False)
      else if isdigit v then (case py_int L v of Inl e \<Rightarrow> Inl e | Inr i \<Rightarrow> Inr (JInt i))
      else (case re_match_decimal L v of
              Inl e \<Rightarrow> Inl e
            | Inr True \<Rightarrow> (case py_float L v of Inl e \<Rightarrow> Inl e | Inr f \<Rightarrow> Inr (JFloat f))
            | Inr False \<Rightarrow> Inr (JStr v)))"

fun store_loose :: "pylib \<Rightarrow> (string \<times> string) list \<Rightarrow> (string \<times> json) list \<Rightarrow> exn + (string \<times> json) list" where
  "store_loose L [] result = Inr result"
| "store_loose L ((key, v) # ms) result =
     (case coerce L v of
        Inl e \<Rightarrow> Inl e
      | Inr j \<Rightarrow> store_loose L ms (dict_set result key j))"

definition extract_loose :: "pylib \<Rightarrow> string \<Rightarrow> exn + (string \<times> json) list" where
  "extract_loose L malformed_json =
     (case re_finditer L LoosePair malformed_json of
        Inl e \<Rightarrow> Inl e
      | Inr ms \<Rightarrow> store_loose L ms [])"

text \<open>The repaired text that the first strategy parses.\<close>

definition fix_json :: "pylib \<Rightarrow> string \<Rightarrow> string" where
  "fix_json L malformed_json =
     (let fixed_json = strip malformed_json;
          fixed_json = re_sub L CommaBrace fixed_json;
          fixed_json = re_sub L CommaBracket fixed_json;
          fixed_json = re_sub L BareKey fixed_json
      in if \<not> startswith fixed_json ''{'' \<and> \<not> startswith fixed_json ''[''
         then ''{'' @ fixed_json @ ''}'' else fixed_json)"

text \<open>
  \<^verbatim>\<open>_recover_json\<close>: each strategy is a \<^verbatim>\<open>try\<close> whose handler catches everything; the first
  two fall through to the next strategy, the last returns the empty dict.
\<close>

definition recover_json :: "pylib \<Rightarrow> string \<Rightarrow> exn + json" where
  "recover_json L malformed_json =
     (if malformed_json = [] then Inr (JObj [])
      else
        (case json_loads L (fix_json L malformed_json) of
           Inr v \<Rightarrow> Inr v
         | Inl e1 \<Rightarrow>
             (case (case extract_pairs L malformed_json of
                      Inr result \<Rightarrow> if result \<noteq> [] then Some result else None
                    | Inl e2 \<Rightarrow> None) of
                Some result \<Rightarrow> Inr (JObj result)
              | None \<Rightarrow>
                  (case extract_loose L malformed_json of
                     Inr result \<Rightarrow> Inr (JObj result)
                   | Inl e3 \<Rightarrow> Inr (JObj [])))))"

text \<open>
  What the first line of \<^verbatim>\<open>parse_config\<close> prints of its argument, the \<^verbatim>\<open>config\<close> column of
  a tool, a text or \<^verbatim>\<open>None\<close>.
\<close>

definition shown_config :: "string option \<Rightarrow> string" where
  "shown_config config_str =
     (case config_str of
        None \<Rightarrow> ''None''
      | Some s \<Rightarrow> if length s > 200 then take 200 s @ ''...'' else s)"

text \<open>The branch of the empty argument: a line, then the empty dict.\<close>

definition empty_config :: "pylib \<Rightarrow> exn + json" where
  "empty_config L =
     (case print_debug L EmptyConfig of
        Some e \<Rightarrow> Inl e
      | None \<Rightarrow> Inr (JObj []))"

text \<open>
  The handler of the \<^verbatim>\<open>try\<close> of \<^verbatim>\<open>parse_config\<close>: a line with the exception, the recovery, a
  line with its result. Nothing protects the handler itself.
\<close>

definition recovery :: "pylib \<Rightarrow> string \<Rightarrow> exn \<Rightarrow> exn + json" where
  "recovery L config_str e =
     (case print_debug L (ParsingFailed e) of
        Some e' \<Rightarrow> Inl e'
      | None \<Rightarrow>
          (case recover_json L config_str of
             Inl e' \<Rightarrow> Inl e'
           | Inr recovered \<Rightarrow>
               (case print_debug L (RecoveredConfig recovered) of
                  Some e' \<Rightarrow> Inl e'
                | None \<Rightarrow> Inr recovered)))"

text \<open>
  \<^verbatim>\<open>parse_config\<close>. The first line is printed before any \<^verbatim>\<open>try\<close>, so an exception of that
  print leaves the function. The strict parse and the line with its result are inside the
  \<^verbatim>\<open>try\<close>: an exception of either goes to the handler.
\<close>

definition parse_config :: "pylib \<Rightarrow> string option \<Rightarrow> exn + json" where
  "parse_config L config_str =
     (case print_debug L (ParsingConfig (shown_config config_str)) of
        Some e \<Rightarrow> Inl e
      | None \<Rightarrow>
          (case config_str of
             None \<Rightarrow> empty_config L
           | Some s \<Rightarrow>
               if s = [] then empty_config L
               else (case json_loads L s of
                       Inl e \<Rightarrow> recovery L s e
                     | Inr result \<Rightarrow>
                         (case print_debug L (ParsedConfig result) of
                            Some e \<Rightarrow> recovery L s e
                          | None \<Rightarrow> Inr result))))"

section \<open>The capability factory (\<^verbatim>\<open>_create_tool_instance_from_data\<close>)\<close>

text \<open>
  A tool as \<^verbatim>\<open>load_workflow\<close> and \<^verbatim>\<open>load_agent\<close> join it into a node: the name and the type
  are columns that cannot be null, the configuration and the agent identity can.
\<close>

record tool_data =
  name :: string
  tool_type :: string
  config :: "string option"
  agent_id :: "string option"

text \<open>The \<^verbatim>\<open>ERROR\<close> and \<^verbatim>\<open>WARNING\<close> lines printed; the other prints are left out.\<close>

datatype log_event =
    ConfigParseFailed string exn
  | BuiltinNotFound string
  | NoCommandFound string
  | McpInitFailed string exn
  | UnknownToolType string string
  | ToolInstanceNone string
  | NoReference
  | AgentInitFailed string exn
  | CrossRegionFailed exn
  | AgentNodeFailed string
  | ToolNodeFailed string

text \<open>The registry of the \<^verbatim>\<open>builtin\<close> branch; \<^verbatim>\<open>use_llm\<close> is commented out in the source.\<close>

definition tool_mapping :: "(string \<times> builtin_op) list" where
  "tool_mapping =
     [(''file_read'', File_read), (''file_write'', File_write), (''editor'', Editor),
      (''shell'', Shell), (''http_request'', Http_request), (''python_repl'', Python_repl),
      (''calculator'', Calculator), (''use_aws'', Use_aws), (''retrieve'', Retrieve),
      (''nova_reels'', Nova_reels), (''memory'', Memory), (''environment'', Environment),
      (''generate_image'', Generate_image), (''image_reader'', Image_reader),
      (''journal'', Journal), (''think'', Think_tool), (''load_tool'', Load_tool),
      (''swarm'', Swarm), (''current_time'', Current_time), (''sleep'', Sleep),
      (''agent_graph'', Agent_graph), (''cron'', Cron), (''slack'', Slack),
      (''speak'', Speak), (''stop'', Stop), (''workflow'', Workflow), (''batch'', Batch)]"

text \<open>
  \<^verbatim>\<open>config.get('disabled_tools', [])\<close>, where \<^verbatim>\<open>config\<close> is whatever the parser returned:
  only a dict has \<^verbatim>\<open>get\<close>.
\<close>

definition config_get_disabled :: "json \<Rightarrow> exn + json" where
  "config_get_disabled cfg =
     (case cfg of
        JObj d \<Rightarrow> Inr (dict_get d ''disabled_tools'' (JArr []))
      | _ \<Rightarrow> Inl AttributeError)"

text \<open>
  \<^verbatim>\<open>tool.mcp_tool.name in disabled_tools\<close>: membership in a list, a substring of a text, a key
  of a dict; a number or a boolean is not iterable.
\<close>

definition py_in :: "string \<Rightarrow> json \<Rightarrow> exn + bool" where
  "py_in n container =
     (case container of
        JArr xs \<Rightarrow> Inr (JStr n \<in> set xs)
      | JStr s \<Rightarrow> Inr (sublist n s)
      | JObj d \<Rightarrow> Inr (n \<in> fst ` set d)
      | _ \<Rightarrow> Inl TypeError)"

text \<open>The comprehension \<^verbatim>\<open>[tool for tool in all_tools if tool.mcp_tool.name not in disabled_tools]\<close>.\<close>

fun filter_disabled :: "json \<Rightarrow> mcp_tool list \<Rightarrow> exn + mcp_tool list" where
  "filter_disabled disabled_tools [] = Inr []"
| "filter_disabled disabled_tools (t # ts) =
     (case py_in (mcp_tool_name t) disabled_tools of
        Inl e \<Rightarrow> Inl e
      | Inr b \<Rightarrow>
          (case filter_disabled disabled_tools ts of
             Inl e \<Rightarrow> Inl e
           | Inr r \<Rightarrow> Inr (if b then r else t # r)))"

text \<open>
  The body of the \<^verbatim>\<open>try\<close> of the \<^verbatim>\<open>mcp\<close> branch. The fourth component of what
  \<^verbatim>\<open>locate_config\<close> returns is dropped; the disabled names are read from the root of the
  configuration.
\<close>

definition mcp_body :: "pylib \<Rightarrow> string \<Rightarrow> json \<Rightarrow> exn + log_event list \<times> capability list option" where
  "mcp_body L tool_name cfg =
     (case locate_config cfg of
        (command, args, env, unused) \<Rightarrow>
          (case config_get_disabled cfg of
             Inl e \<Rightarrow> Inl e
           | Inr disabled_tools \<Rightarrow>
               if \<not> truthy command then Inr ([NoCommandFound tool_name], None)
               else
                 (case mcp_list_tools L command args env of
                    Inl e \<Rightarrow> Inl e
                  | Inr all_tools \<Rightarrow>
                      if truthy disabled_tools \<and> all_tools \<noteq> []
                      then (case filter_disabled disabled_tools all_tools of
                              Inl e \<Rightarrow> Inl e
                            | Inr filtered_tools \<Rightarrow> Inr ([], Some (map MCPTool filtered_tools)))
                      else Inr ([], Some (map MCPTool all_tools)))))"

text \<open>
  The factory. The configuration is parsed first, for every type of tool, and an exception
  of the parser leaves the empty dict. The third branch needs an agent identity that is
  truthy. The result is the list of capabilities or \<^verbatim>\<open>None\<close>,
  with the lines logged on the way.
\<close>

definition create_tool_instance_from_data :: "pylib \<Rightarrow> tool_data \<Rightarrow> log_event list \<times> capability list option" where
  "create_tool_instance_from_data L td =
     (let tool_name = name td;
          (log0, cfg) =
             (case parse_config L (config td) of
                Inr c \<Rightarrow> ([], c)
              | Inl e \<Rightarrow> ([ConfigParseFailed tool_name e], JObj []))
      in if tool_type td = ''builtin'' then
           (let tool_name_lower = lower tool_name
            in case map_of tool_mapping tool_name_lower of
                 Some tool_module \<Rightarrow> (log0, Some [BuiltinTool tool_module])
               | None \<Rightarrow> (log0 @ [BuiltinNotFound tool_name_lower], None))
         else if tool_type td = ''mcp'' then
           (case mcp_body L tool_name cfg of
              Inr (lg, r) \<Rightarrow> (log0 @ lg, r)
            | Inl e \<Rightarrow> (log0 @ [McpInitFailed tool_name e], None))
         else if tool_type td = ''agent'' \<and> agent_id td \<noteq> None \<and> agent_id td \<noteq> Some []
         then
           (log0, Some [AgentToolFunction (name td)])
         else (log0 @ [UnknownToolType (tool_type td) tool_name], None))"

section \<open>The resolved graph\<close>

text \<open>
  What \<^verbatim>\<open>load_workflow\<close> and \<^verbatim>\<open>load_agent\<close> return. A node has its type and, when the record
  it refers to was found, the joined data of its agent or tool. The dict of nodes keeps its
  order; identities are the text that \<^verbatim>\<open>str\<close> gives for them.
\<close>

record agent_ref =
  a_name :: string
  a_prompt :: "string option"
  a_model_id :: "string option"
  a_description :: "string option"
  a_tools :: "tool_data list"

datatype reference = AgentRef agent_ref | ToolRef tool_data

record node_data =
  node_type :: string
  node_reference :: "reference option"

record entry =
  role :: string
  content :: string
  timestamp :: string

record workflow_context =
  w_name :: string
  w_description :: "string option"
  w_model_id :: "string option"
  nodes :: "(string \<times> node_data) list"
  edges :: "(string \<times> string) list"
  conversation_history :: "entry list option"

text \<open>What an f-string prints for a text that may be \<^verbatim>\<open>None\<close>.\<close>

definition py_str :: "string option \<Rightarrow> string" where
  "py_str x = (case x of None \<Rightarrow> ''None'' | Some s \<Rightarrow> s)"

definition reference_name :: "reference \<Rightarrow> string" where
  "reference_name r = (case r of AgentRef a \<Rightarrow> a_name a | ToolRef t \<Rightarrow> name t)"

section \<open>Materializing the nodes\<close>

text \<open>
  The loop of \<^verbatim>\<open>create_agent\<close> over the tools of the agent. An instance is added when it is
  truthy, that is a list that is not empty.
\<close>

fun create_agent_tools :: "pylib \<Rightarrow> tool_data list \<Rightarrow> log_event list \<times> capability list" where
  "create_agent_tools L [] = ([], [])"
| "create_agent_tools L (td # tds) =
     (let (lg, tool_instance) = create_tool_instance_from_data L td;
          (lg', agent_tools) = create_agent_tools L tds
      in case tool_instance of
           None \<Rightarrow> (lg @ [ToolInstanceNone (name td)] @ lg', agent_tools)
         | Some ts \<Rightarrow>
             if ts \<noteq> [] then (lg @ lg', ts @ agent_tools)
             else (lg @ [ToolInstanceNone (name td)] @ lg', agent_tools))"

text \<open>The model selector, replaced by the catalogue's alias unless the catalogue raises.\<close>

definition resolve_model :: "pylib \<Rightarrow> string option \<Rightarrow> log_event list \<times> string option" where
  "resolve_model L model_arg =
     (case model_arg of
        None \<Rightarrow> ([], None)
      | Some m \<Rightarrow>
          if m = [] then ([], Some m)
          else (case get_model_with_cross_region_profile L m of
                  Inr m' \<Rightarrow> ([], Some m')
                | Inl e \<Rightarrow> ([CrossRegionFailed e], Some m)))"

text \<open>
  \<^verbatim>\<open>create_agent\<close>. A node whose reference is the data of a tool has no \<^verbatim>\<open>prompt\<close> key, and
  the handler around the constructor turns the resulting error into \<^verbatim>\<open>None\<close>.
\<close>

definition create_agent :: "pylib \<Rightarrow> node_data \<Rightarrow> log_event list \<times> strands_agent option" where
  "create_agent L agent_data =
     (case node_reference agent_data of
        None \<Rightarrow> ([NoReference], None)
      | Some (ToolRef t) \<Rightarrow> ([AgentInitFailed (name t) KeyError], None)
      | Some (AgentRef agent_ref) \<Rightarrow>
          (let (lg1, agent_tools) = create_agent_tools L (a_tools agent_ref);
               (lg2, model_arg) = resolve_model L (a_model_id agent_ref)
           in case strands_agent_init L model_arg (a_prompt agent_ref) agent_tools of
                None \<Rightarrow>
                  (lg1 @ lg2,
                   Some (StrandsAgent model_arg (a_prompt agent_ref) agent_tools
                           (Some (a_name agent_ref, a_description agent_ref))))
              | Some e \<Rightarrow> (lg1 @ lg2 @ [AgentInitFailed (a_name agent_ref) e], None)))"

text \<open>
  \<^verbatim>\<open>create_tool\<close>, which has no handler. A node whose reference is the data of an agent has no
  \<^verbatim>\<open>tool_type\<close> key.
\<close>

definition create_tool :: "pylib \<Rightarrow> node_data \<Rightarrow> log_event list \<times> (exn + capability list option)" where
  "create_tool L tool_node =
     (case node_reference tool_node of
        None \<Rightarrow> ([], Inr None)
      | Some (AgentRef a) \<Rightarrow> ([], Inl KeyError)
      | Some (ToolRef tool_ref) \<Rightarrow>
          (let (lg, r) = create_tool_instance_from_data L tool_ref in (lg, Inr r)))"

definition node_name :: "string \<Rightarrow> node_data \<Rightarrow> string" where
  "node_name node_id nd =
     (case node_reference nd of
        None \<Rightarrow> ''Node '' @ node_id
      | Some r \<Rightarrow> reference_name r)"

text \<open>
  The loop of \<^verbatim>\<open>create_nodes\<close>, giving the agents and the tool instances in the order of
  the nodes.
\<close>

fun create_nodes_loop :: "pylib \<Rightarrow> (string \<times> node_data) list \<Rightarrow>
    log_event list \<times> (exn + strands_agent list \<times> capability list list)" where
  "create_nodes_loop L [] = ([], Inr ([], []))"
| "create_nodes_loop L ((node_id, nd) # rest) =
     (if node_type nd = ''agent'' then
        (let (lg, agent) = create_agent L nd;
             (lg', r) = create_nodes_loop L rest
         in case agent of
              Some a \<Rightarrow>
                (lg @ lg', case r of Inl e \<Rightarrow> Inl e | Inr (agents, tls) \<Rightarrow> Inr (a # agents, tls))
            | None \<Rightarrow> (lg @ [AgentNodeFailed (node_name node_id nd)] @ lg', r))
      else if node_type nd = ''tool'' then
        (case create_tool L nd of
           (lg, Inl e) \<Rightarrow> (lg, Inl e)
         | (lg, Inr tool_instance) \<Rightarrow>
             (let (lg', r) = create_nodes_loop L rest
              in case tool_instance of
                   None \<Rightarrow> (lg @ [ToolNodeFailed (node_name node_id nd)] @ lg', r)
                 | Some ts \<Rightarrow>
                     if ts \<noteq> []
                     then (lg @ lg',
                           case r of Inl e \<Rightarrow> Inl e | Inr (agents, tls) \<Rightarrow> Inr (agents, ts # tls))
                     else (lg @ [ToolNodeFailed (node_name node_id nd)] @ lg', r)))
      else create_nodes_loop L rest)"

definition create_nodes :: "pylib \<Rightarrow> workflow_context \<Rightarrow>
    log_event list \<times> (exn + strands_agent list \<times> capability list list)" where
  "create_nodes L workflow_context = create_nodes_loop L (nodes workflow_context)"

section \<open>The orchestrator (\<^verbatim>\<open>_create_orchestrator\<close>, \<^verbatim>\<open>_generate_workflow_prompt\<close>)\<close>

text \<open>The name and the type a node contributes to the prompt, read through \<^verbatim>\<open>nodes.get\<close>.\<close>

definition lookup_name :: "(string \<times> node_data) list \<Rightarrow> string \<Rightarrow> string" where
  "lookup_name ns node_id =
     (case map_of ns node_id of
        None \<Rightarrow> ''Node '' @ node_id
      | Some nd \<Rightarrow> node_name node_id nd)"

definition lookup_type :: "(string \<times> node_data) list \<Rightarrow> string \<Rightarrow> string option" where
  "lookup_type ns node_id = map_option node_type (map_of ns node_id)"

definition node_line :: "string \<times> node_data \<Rightarrow> string" where
  "node_line p =
     (case p of (node_id, nd) \<Rightarrow>
        if node_type nd \<noteq> ''input'' \<and> node_type nd \<noteq> ''output''
        then ''- '' @ node_name node_id nd @ '' (ID: '' @ node_id @ '', Type: '' @ node_type nd
             @ '')\<newline>''
        else [])"

definition source_name :: "(string \<times> node_data) list \<Rightarrow> string \<Rightarrow> string" where
  "source_name ns source_id =
     (if lookup_type ns source_id = Some ''input'' then ''the initial input''
      else lookup_name ns source_id)"

definition target_name :: "(string \<times> node_data) list \<Rightarrow> string \<Rightarrow> string" where
  "target_name ns target_id =
     (if lookup_type ns target_id = Some ''output'' then ''the user as final response''
      else lookup_name ns target_id)"

definition edge_line :: "(string \<times> node_data) list \<Rightarrow> string \<times> string \<Rightarrow> string" where
  "edge_line ns edge =
     (case edge of (source_id, target_id) \<Rightarrow>
        ''- You can from '' @ source_name ns source_id @ '' send the result to the ''
        @ target_name ns target_id @ ''\<newline>'')"

definition prompt_head :: "workflow_context \<Rightarrow> string" where
  "prompt_head workflow =
     ''# Workflow: '' @ w_name workflow @ ''\<newline>\<newline>''
     @ py_str (w_description workflow) @ ''\<newline>\<newline>''
     @ ''## Your Role\<newline>''
     @ ''You are the Workflow Orchestrator responsible for managing the execution of this workflow. ''
     @ ''You receive user messages and route them through the workflow according to the graph structure below.\<newline>\<newline>''
     @ ''## Workflow Graph Structure\<newline>''
     @ ''### Nodes:\<newline>''"

definition prompt_instructions :: string where
  "prompt_instructions =
     ''\<newline>## Instructions\<newline>''
     @ ''1. When you receive a user message, identify the appropriate starting point in the workflow.\<newline>''
     @ ''2. Route the message through the workflow according to the graph structure.\<newline>''
     @ ''3. Each agent or tool in the workflow will process the message and produce a response.\<newline>''
     @ ''4. Follow the graph edges to determine the next node (agent or tool) to invoke.\<newline>''
     @ ''5. For agent nodes, use the corresponding agent tool to process the message.\<newline>''
     @ ''6. For tool nodes, use the corresponding tool directly to process the message.\<newline>''
     @ ''7. Return the final response to the user.\<newline>''"

definition generate_workflow_prompt :: "workflow_context \<Rightarrow> string" where
  "generate_workflow_prompt workflow =
     prompt_head workflow
     @ concat (map node_line (nodes workflow))
     @ ''\<newline>### Edges:\<newline>''
     @ concat (map (edge_line (nodes workflow)) (edges workflow))
     @ prompt_instructions"

text \<open>
  The name of a wrapper: every character outside letters, digits, underscore and hyphen
  becomes an underscore.
\<close>

definition name_char :: "char \<Rightarrow> bool" where
  "name_char c =
     (let n = (of_char c :: nat)
      in (97 \<le> n \<and> n \<le> 122) \<or> (65 \<le> n \<and> n \<le> 90) \<or> (48 \<le> n \<and> n \<le> 57)
         \<or> n = 95 \<or> n = 45)"

definition sanitize :: "string \<Rightarrow> string" where
  "sanitize s = map (\<lambda>c. if name_char c then c else CHR ''_'') s"

text \<open>
  The wrappers of the agents. The description is used as the documentation when it is a text
  that is not empty. An agent without the two attributes raises at the first read.
\<close>

fun wrap_agents :: "strands_agent list \<Rightarrow> exn + capability list" where
  "wrap_agents [] = Inr []"
| "wrap_agents (agent # rest) =
     (case labels agent of
        None \<Rightarrow> Inl AttributeError
      | Some (nm, descr) \<Rightarrow>
          (case wrap_agents rest of
             Inl e \<Rightarrow> Inl e
           | Inr ws \<Rightarrow>
               Inr (AgentWrapper (sanitize nm)
                      (case descr of
                         None \<Rightarrow> '' Execute the agent called '' @ nm @ '' ''
                       | Some d \<Rightarrow> if d \<noteq> [] then d else '' Execute the agent called '' @ nm @ '' '')
                      agent # ws)))"

text \<open>
  \<^verbatim>\<open>_create_orchestrator\<close>. Neither the catalogue lookup nor the constructor has a handler
  here.
\<close>

definition create_orchestrator :: "pylib \<Rightarrow> workflow_context \<Rightarrow> strands_agent list \<Rightarrow>
    capability list list \<Rightarrow> exn + strands_agent" where
  "create_orchestrator L workflow_context agents tls =
     (case wrap_agents agents of
        Inl e \<Rightarrow> Inl e
      | Inr wrappers \<Rightarrow>
          (let all_tools = wrappers @ concat tls;
               system_prompt = generate_workflow_prompt workflow_context
           in case (case w_model_id workflow_context of
                      None \<Rightarrow> Inr None
                    | Some m \<Rightarrow>
                        if m = [] then Inr (Some m)
                        else (case get_model_with_cross_region_profile L m of
                                Inl e \<Rightarrow> Inl e
                              | Inr m' \<Rightarrow> Inr (Some m'))) of
                Inl e \<Rightarrow> Inl e
              | Inr model_id \<Rightarrow>
                  (case strands_agent_init L model_id (Some system_prompt) all_tools of
                     Some e \<Rightarrow> Inl e
                   | None \<Rightarrow> Inr (StrandsAgent model_id (Some system_prompt) all_tools None))))"

section \<open>The worker (\<^verbatim>\<open>_processing_thread\<close>)\<close>

text \<open>
  The set-up of the worker, up to the orchestrator: with more than one live agent an
  orchestrator is synthesized, otherwise the first element of the list of agents is taken,
  which raises on the empty list.
\<close>

definition setup_orchestrator :: "pylib \<Rightarrow> workflow_context \<Rightarrow> exn + strands_agent" where
  "setup_orchestrator L workflow_context =
     (case snd (create_nodes L workflow_context) of
        Inl e \<Rightarrow> Inl e
      | Inr (agents, tls) \<Rightarrow>
          if length agents > 1 then create_orchestrator L workflow_context agents tls
          else (case agents of [] \<Rightarrow> Inl IndexError | a # rest \<Rightarrow> Inr a))"

text \<open>
  \<^verbatim>\<open>json.dumps\<close> of the conversation history, a list of dicts with three texts each: the
  default separators, and every character outside the printable ASCII range escaped.
\<close>

definition hex_digit :: "nat \<Rightarrow> char" where
  "hex_digit n = ''0123456789abcdef'' ! (n mod 16)"

definition esc_char :: "char \<Rightarrow> string" where
  "esc_char c =
     (let n = (of_char c :: nat)
      in if n = 34 then [CHR 0x5C, CHR 0x22]
         else if n = 92 then [CHR 0x5C, CHR 0x5C]
         else if n = 10 then [CHR 0x5C, CHR ''n'']
         else if n = 13 then [CHR 0x5C, CHR ''r'']
         else if n = 9 then [CHR 0x5C, CHR ''t'']
         else if n = 8 then [CHR 0x5C, CHR ''b'']
         else if n = 12 then [CHR 0x5C, CHR ''f'']
         else if 32 \<le> n \<and> n \<le> 126 then [c]
         else [CHR 0x5C, CHR ''u'', CHR ''0'', CHR ''0'', hex_digit (n div 16), hex_digit n])"

definition dumps_str :: "string \<Rightarrow> string" where
  "dumps_str s = [CHR 0x22] @ concat (map esc_char s) @ [CHR 0x22]"

definition dumps_entry :: "entry \<Rightarrow> string" where
  "dumps_entry e =
     ''{'' @ dumps_str ''role'' @ '': '' @ dumps_str (role e) @ '', ''
     @ dumps_str ''content'' @ '': '' @ dumps_str (content e) @ '', ''
     @ dumps_str ''timestamp'' @ '': '' @ dumps_str (timestamp e) @ ''}''"

fun join :: "string \<Rightarrow> string list \<Rightarrow> string" where
  "join sep [] = []"
| "join sep [x] = x"
| "join sep (x # y # ys) = x @ sep @ join sep (y # ys)"

definition dumps_history :: "entry list \<Rightarrow> string" where
  "dumps_history h = ''['' @ join '', '' (map dumps_entry h) @ '']''"

text \<open>
  The caller (\<^verbatim>\<open>retrieve_conversation_history\<close> in \<^verbatim>\<open>app.py\<close>) cuts the marker off and applies
  \<^verbatim>\<open>json.loads\<close> to the rest. This is \<^verbatim>\<open>json.loads\<close> on the texts that \<^verbatim>\<open>json.dumps\<close> gives
  for a history: a text between quotes with its escapes, an entry with its three keys in
  their order, and the list of the entries.
\<close>

text \<open>The value of a hexadecimal digit, and the character of a one-letter escape.\<close>

definition hex_value :: "char \<Rightarrow> nat option" where
  "hex_value c =
     (let n = (of_char c :: nat)
      in if 48 \<le> n \<and> n \<le> 57 then Some (n - 48)
         else if 97 \<le> n \<and> n \<le> 102 then Some (n - 87)
         else if 65 \<le> n \<and> n \<le> 70 then Some (n - 55)
         else None)"

definition unescape :: "char \<Rightarrow> char option" where
  "unescape d =
     (let n = (of_char d :: nat)
      in if n = 34 \<or> n = 92 \<or> n = 47 then Some d
         else if n = 110 then Some (char_of (10 :: nat))
         else if n = 114 then Some (char_of (13 :: nat))
         else if n = 116 then Some (char_of (9 :: nat))
         else if n = 98 then Some (char_of (8 :: nat))
         else if n = 102 then Some (char_of (12 :: nat))
         else None)"

text \<open>
  The text up to the closing quote, decoded, and what follows the quote. The escape with
  the letter u and four hexadecimal digits gives the code point, which is below 256 here; a
  control character that is not escaped is refused, as the strict decoder does.
\<close>

fun scan_string :: "string \<Rightarrow> (string \<times> string) option" where
  "scan_string [] = None"
| "scan_string (c # cs) =
     (if of_char c = (34 :: nat) then Some ([], cs)
      else if of_char c = (92 :: nat) then
        (case cs of
           [] \<Rightarrow> None
         | d # ds \<Rightarrow>
             if of_char d = (117 :: nat) then
               (case ds of
                  a # b # x # y # rest \<Rightarrow>
                    (case (hex_value a, hex_value b, hex_value x, hex_value y) of
                       (Some 0, Some 0, Some h, Some l) \<Rightarrow>
                         map_option (\<lambda>(s, r). (char_of (16 * h + l) # s, r)) (scan_string rest)
                     | _ \<Rightarrow> None)
                | _ \<Rightarrow> None)
             else
               (case unescape d of
                  None \<Rightarrow> None
                | Some ch \<Rightarrow> map_option (\<lambda>(s, r). (ch # s, r)) (scan_string ds)))
      else if of_char c < (32 :: nat) then None
      else map_option (\<lambda>(s, r). (c # s, r)) (scan_string cs))"

text \<open>What follows a given text, \<open>None\<close> when the input does not start with it.\<close>

definition expect :: "string \<Rightarrow> string \<Rightarrow> string option" where
  "expect p s = (if prefix p s then Some (drop (length p) s) else None)"

definition scan_entry :: "string \<Rightarrow> (entry \<times> string) option" where
  \<open>scan_entry s =
     (case expect ''{"role": "'' s of
        None \<Rightarrow> None
      | Some s1 \<Rightarrow>
     (case scan_string s1 of
        None \<Rightarrow> None
      | Some (r, s2) \<Rightarrow>
     (case expect '', "content": "'' s2 of
        None \<Rightarrow> None
      | Some s3 \<Rightarrow>
     (case scan_string s3 of
        None \<Rightarrow> None
      | Some (c, s4) \<Rightarrow>
     (case expect '', "timestamp": "'' s4 of
        None \<Rightarrow> None
      | Some s5 \<Rightarrow>
     (case scan_string s5 of
        None \<Rightarrow> None
      | Some (t, s6) \<Rightarrow>
     (case expect ''}'' s6 of
        None \<Rightarrow> None
      | Some s7 \<Rightarrow> Some (\<lparr>role = r, content = c, timestamp = t\<rparr>, s7))))))))\<close>

text \<open>
  The entries up to the closing bracket. The number bounds the entries still to read; the
  length of the whole text is enough, since no entry is empty.
\<close>

fun scan_entries :: "nat \<Rightarrow> string \<Rightarrow> entry list option" where
  "scan_entries 0 s = None"
| "scan_entries (Suc n) s =
     (case scan_entry s of
        None \<Rightarrow> None
      | Some (e, rest) \<Rightarrow>
          if rest = '']'' then Some [e]
          else (case expect '', '' rest of
                  None \<Rightarrow> None
                | Some rest' \<Rightarrow> map_option ((#) e) (scan_entries n rest')))"

definition loads_history :: "string \<Rightarrow> entry list option" where
  "loads_history s =
     (if s = ''[]'' then Some []
      else (case expect ''['' s of
              None \<Rightarrow> None
            | Some rest \<Rightarrow> scan_entries (length s) rest))"

text \<open>
  The worker between two receptions: its conversation history (\<open>None\<close> while the context
  has no such key), everything it has put on the output channel, the messages it has
  called the orchestrator with, the number of clock readings, and whether it is waiting
  at the input channel, has left its loop, or has died of an exception.
\<close>

datatype status = Waiting | Terminated | Crashed exn

record worker =
  history :: "entry list option"
  output_queue :: "string list"
  invoked :: "string list"
  clock :: nat
  status :: status

definition current_history :: "worker \<Rightarrow> entry list" where
  "current_history w = (case history w of None \<Rightarrow> [] | Some h \<Rightarrow> h)"

text \<open>What a callback handler puts on the output channel for an event.\<close>

definition callback_handler :: "cb_event \<Rightarrow> string list" where
  "callback_handler ev =
     (case ev of
        Delta d \<Rightarrow> [''data: '' @ d @ ''\<newline>end'']
      | Other \<Rightarrow> [])"

text \<open>The branch of the \<^verbatim>\<open>RETRIEVE\<close> sentinel.\<close>

definition handle_retrieve :: "worker \<Rightarrow> worker" where
  "handle_retrieve w =
     w\<lparr>output_queue := output_queue w @ [''_Q_E_E_HISTORY'' @ dumps_history (current_history w)]\<rparr>"

text \<open>
  The branch of any other message. The call of the orchestrator has no handler: when it
  raises, the worker dies with the user entry appended and whatever was streamed so far.
\<close>

definition handle_message :: "pylib \<Rightarrow> strands_agent \<Rightarrow> string \<Rightarrow> worker \<Rightarrow> worker" where
  "handle_message L orchestrator message w =
     (let h1 = current_history w
               @ [\<lparr>role = ''user'', content = message, timestamp = utcnow_json L (clock w)\<rparr>];
          (events, answer) = agent_call L orchestrator message;
          out1 = output_queue w @ concat (map callback_handler events)
      in case answer of
           Inl e \<Rightarrow>
             w\<lparr>history := Some h1, output_queue := out1, invoked := invoked w @ [message],
               clock := clock w + 1, status := Crashed e\<rparr>
         | Inr text \<Rightarrow>
             w\<lparr>history := Some (h1 @ [\<lparr>role = ''assistant'', content = text,
                                        timestamp = utcnow_json L (clock w + 1)\<rparr>]),
               output_queue := out1 @ [''_Q_E_E_ANSWERED''],
               invoked := invoked w @ [message],
               clock := clock w + 2\<rparr>)"

text \<open>
  The loop, over what the input channel delivers. A reception that raises, or the
  \<^verbatim>\<open>TERMINATE\<close> sentinel, leaves the loop; with nothing left to receive the worker waits.
\<close>

fun worker_loop :: "pylib \<Rightarrow> strands_agent \<Rightarrow> (exn + string) list \<Rightarrow> worker \<Rightarrow> worker" where
  "worker_loop L orchestrator [] w = w"
| "worker_loop L orchestrator (Inl e # rest) w = w\<lparr>status := Terminated\<rparr>"
| "worker_loop L orchestrator (Inr message # rest) w =
     (if message = ''_Q_E_E_TERMINATE'' then w\<lparr>status := Terminated\<rparr>
      else if message = ''_Q_E_E_RETRIEVE'' then worker_loop L orchestrator rest (handle_retrieve w)
      else (let w' = handle_message L orchestrator message w
            in case status w' of
                 Crashed e \<Rightarrow> w'
               | _ \<Rightarrow> worker_loop L orchestrator rest w'))"

text \<open>
  The whole worker. The \<^verbatim>\<open>STARTED\<close> sentinel is put once the orchestrator exists; an
  exception before that ends the process with nothing on the output channel.
\<close>

definition processing_thread :: "pylib \<Rightarrow> workflow_context \<Rightarrow> (exn + string) list \<Rightarrow> worker" where
  "processing_thread L workflow_context inputs =
     (case setup_orchestrator L workflow_context of
        Inl e \<Rightarrow>
          \<lparr>history = conversation_history workflow_context, output_queue = [], invoked = [],
           clock = 0, status = Crashed e\<rparr>
      | Inr orchestrator \<Rightarrow>
          worker_loop L orchestrator inputs
            \<lparr>history = conversation_history workflow_context,
             output_queue = [''_Q_E_E_STARTED''], invoked = [], clock = 0, status = Waiting\<rparr>)"

text \<open>
  The caller (\<^verbatim>\<open>start_workflow\<close> in \<^verbatim>\<open>app.py\<close>) starts the worker and then takes one item from
  the output channel, without a timeout and before it has sent anything. The result is that
  item, or \<open>None\<close> when the worker ends without having put one, so that the \<^verbatim>\<open>get\<close> never
  returns.
\<close>

definition start_workflow :: "pylib \<Rightarrow> workflow_context \<Rightarrow> string option" where
  "start_workflow L workflow_context =
     (case output_queue (processing_thread L workflow_context []) of
        [] \<Rightarrow> None
      | x # rest \<Rightarrow> Some x)"

section \<open>The launch parameters, as a search\<close>






section \<open>Sample inputs\<close>

text \<open>
  A behaviour of the libraries for the examples: \<^verbatim>\<open>json.loads\<close> on the five texts the
  examples parse, and on the texts \<^verbatim>\<open>???\<close> and \<^verbatim>\<open>{???}\<close>, which it refuses as it does every
  other text here; regular expressions as they act on \<^verbatim>\<open>???\<close>, where none of them matches;
  a client that reports two tools for the command \<^verbatim>\<open>uvx\<close> and fails to start for any other;
  a catalogue without aliases; a constructor that succeeds; a model that streams one
  fragment and answers; and a standard output that takes every line.
\<close>

definition sample_loads :: "string \<Rightarrow> exn + json" where
  \<open>sample_loads s =
     (if s = ''[]'' then Inr (JArr [])
      else if s = ''{"url": "http://localhost:8000"}''
        then Inr (JObj [(''url'', JStr ''http://localhost:8000'')])
      else if s = ''{"command": "uvx", "args": ["mcp-server-fetch"], "disabled_tools": ["fetch"]}''
        then Inr (JObj [(''command'', JStr ''uvx''), (''args'', JArr [JStr ''mcp-server-fetch'']),
                        (''disabled_tools'', JArr [JStr ''fetch''])])
      else if s = ''{"mcpServers": {"web": {"command": "uvx", "disabled_tools": ["fetch"]}}}''
        then Inr (JObj [(''mcpServers'', JObj [(''web'',
                     JObj [(''command'', JStr ''uvx''), (''disabled_tools'', JArr [JStr ''fetch''])])])])
      else if s = ''{"command": "no-such-program"}''
        then Inr (JObj [(''command'', JStr ''no-such-program'')])
      else Inl (LibraryError ''JSONDecodeError''))\<close>

definition sample_lib :: pylib where
  \<open>sample_lib =
     \<lparr>json_loads = sample_loads,
      re_sub = (\<lambda>r s. s),
      re_finditer = (\<lambda>r s. Inr []),
      re_match_decimal = (\<lambda>s. Inr False),
      py_int = (\<lambda>s. Inl ValueError),
      py_float = (\<lambda>s. Inl ValueError),
      mcp_list_tools = (\<lambda>command args env.
         if command = JStr ''uvx'' then Inr [MCPAgentTool ''fetch'', MCPAgentTool ''search'']
         else Inl (LibraryError ''FileNotFoundError'')),
      get_model_with_cross_region_profile = (\<lambda>m. Inr m),
      strands_agent_init = (\<lambda>m p ts. None),
      agent_call = (\<lambda>a m. ([Delta ''{"delta": {"text": "Hi"}}'', Other], Inr ''Hi'')),
      utcnow_json = (\<lambda>n. ''"2025-01-01 00:00:00+00:00"''),
      print_debug = (\<lambda>p. None)\<rparr>\<close>

text \<open>
  The same with a standard output in the ASCII encoding, as far as the first debug line
  goes, the only one the example reaches: writing a character above 127 raises.
\<close>

definition ascii_stdout_lib :: pylib where
  "ascii_stdout_lib =
     sample_lib\<lparr>print_debug :=
       (\<lambda>p. case p of
              ParsingConfig s \<Rightarrow>
                if list_all (\<lambda>c. of_char c < (128 :: nat)) s then None
                else Some UnicodeEncodeError
            | _ \<Rightarrow> None)\<rparr>"


definition tool_fetch_root :: tool_data where
  \<open>tool_fetch_root =
     \<lparr>name = ''web'', tool_type = ''mcp'',
      config = Some ''{"command": "uvx", "args": ["mcp-server-fetch"], "disabled_tools": ["fetch"]}'',
      agent_id = None\<rparr>\<close>

definition tool_fetch_nested :: tool_data where
  \<open>tool_fetch_nested =
     \<lparr>name = ''web'', tool_type = ''mcp'',
      config = Some ''{"mcpServers": {"web": {"command": "uvx", "disabled_tools": ["fetch"]}}}'',
      agent_id = None\<rparr>\<close>



definition tool_calculator :: tool_data where
  "tool_calculator =
     \<lparr>name = ''Calculator'', tool_type = ''builtin'', config = None, agent_id = None\<rparr>"

definition summarizer :: agent_ref where
  "summarizer =
     \<lparr>a_name = ''Summarizer'', a_prompt = Some ''Summarize the text.'', a_model_id = None,
      a_description = None, a_tools = []\<rparr>"

definition agent_A :: agent_ref where
  "agent_A =
     \<lparr>a_name = ''A'', a_prompt = Some ''Do A.'', a_model_id = None, a_description = None,
      a_tools = []\<rparr>"

definition agent_B :: agent_ref where
  "agent_B =
     \<lparr>a_name = ''B'', a_prompt = Some ''Do B.'', a_model_id = None, a_description = None,
      a_tools = []\<rparr>"


text \<open>The graph input, Summarizer, output with its two edges.\<close>

definition chain_graph :: workflow_context where
  "chain_graph =
     \<lparr>w_name = ''chain'', w_description = None, w_model_id = None,
      nodes = [(''n1'', \<lparr>node_type = ''input'', node_reference = None\<rparr>),
               (''n2'', \<lparr>node_type = ''agent'', node_reference = Some (AgentRef summarizer)\<rparr>),
               (''n3'', \<lparr>node_type = ''output'', node_reference = None\<rparr>)],
      edges = [(''n1'', ''n2''), (''n2'', ''n3'')],
      conversation_history = Some []\<rparr>"

text \<open>The graph of the two agents A and B with the edge from A to B.\<close>

definition two_agents :: workflow_context where
  "two_agents =
     \<lparr>w_name = ''pair'', w_description = None, w_model_id = None,
      nodes = [(''a'', \<lparr>node_type = ''agent'', node_reference = Some (AgentRef agent_A)\<rparr>),
               (''b'', \<lparr>node_type = ''agent'', node_reference = Some (AgentRef agent_B)\<rparr>)],
      edges = [(''a'', ''b'')],
      conversation_history = Some []\<rparr>"

text \<open>The worker of that graph after the turn of the message \<^verbatim>\<open>hello\<close>.\<close>

definition after_hello :: worker where
  \<open>after_hello =
     \<lparr>history = Some [\<lparr>role = ''user'', content = ''hello'',
                        timestamp = ''"2025-01-01 00:00:00+00:00"''\<rparr>,
                      \<lparr>role = ''assistant'', content = ''Hi'',
                        timestamp = ''"2025-01-01 00:00:00+00:00"''\<rparr>],
      output_queue = [''_Q_E_E_STARTED'', ''data: {"delta": {"text": "Hi"}}\<newline>end'',
                      ''_Q_E_E_ANSWERED''],
      invoked = [''hello''], clock = 2, status = Waiting\<rparr>\<close>

text \<open>A graph without any agent node.\<close>

definition no_agents :: workflow_context where
  "no_agents =
     \<lparr>w_name = ''empty'', w_description = None, w_model_id = None,
      nodes = [(''n1'', \<lparr>node_type = ''input'', node_reference = None\<rparr>),
               (''n2'', \<lparr>node_type = ''tool'', node_reference = Some (ToolRef tool_calculator)\<rparr>),
               (''n3'', \<lparr>node_type = ''output'', node_reference = None\<rparr>)],
      edges = [(''n1'', ''n2''), (''n2'', ''n3'')],
      conversation_history = Some []\<rparr>"

section \<open>Properties of the launch parameter search\<close>









section \<open>Properties of the configuration parser\<close>

text \<open>
  Claim C3, as amended. For every input, text or \<^verbatim>\<open>None\<close>, whatever the other libraries do,
  and as long as the debug lines can be written, the parser returns a value and raises
  nothing: the empty dict for a missing or empty input; otherwise what the strict parse of
  the input gives when it succeeds, which need not be a dict; otherwise what the strict
  parse of the repaired input gives when it succeeds, which need not be a dict either;
  otherwise a dict, namely the quoted pairs found when there are any, else the loose pairs,
  else the empty dict.
\<close>

theorem parse_config_returns:
  assumes "\<forall>p. print_debug L p = None"
  shows "parse_config L None = Inr (JObj [])
       \<and> parse_config L (Some []) = Inr (JObj [])
       \<and> (s \<noteq> [] \<and> json_loads L s = Inr v \<longrightarrow> parse_config L (Some s) = Inr v)
       \<and> (s \<noteq> [] \<and> json_loads L s = Inl e \<and> json_loads L (fix_json L s) = Inr v \<longrightarrow>
            parse_config L (Some s) = Inr v)
       \<and> (s \<noteq> [] \<and> json_loads L s = Inl e \<and> json_loads L (fix_json L s) = Inl e' \<longrightarrow>
            parse_config L (Some s) =
              Inr (JObj (case extract_pairs L s of
                           Inr d \<Rightarrow>
                             if d \<noteq> [] then d
                             else (case extract_loose L s of Inr d' \<Rightarrow> d' | Inl x \<Rightarrow> [])
                         | Inl x \<Rightarrow> (case extract_loose L s of Inr d' \<Rightarrow> d' | Inl x \<Rightarrow> []))))
       \<and> (\<exists>r. parse_config L cs = Inr r)"
proof -
  have none: "parse_config L None = Inr (JObj [])"
    and empty: "parse_config L (Some []) = Inr (JObj [])"
    using assms by (simp_all add: parse_config_def empty_config_def)
  have strict: "parse_config L (Some t) = Inr r" if "t \<noteq> []" "json_loads L t = Inr r" for t r
    using assms that by (simp add: parse_config_def)
  have recovered: "parse_config L (Some t) = recover_json L t"
    if "t \<noteq> []" "json_loads L t = Inl x" for t x
    using assms that
    by (simp add: parse_config_def recovery_def split: sum.splits)
  have returns: "\<exists>r. recover_json L t = Inr r" for t
    by (auto simp: recover_json_def split: sum.splits option.splits)
  have "\<exists>r. parse_config L cs = Inr r"
  proof (cases cs)
    case None
    with none show ?thesis by simp
  next
    case (Some t)
    show ?thesis
    proof (cases "t = []")
      case True
      with Some empty show ?thesis by simp
    next
      case False
      then show ?thesis
        using Some strict [of t] recovered [of t] returns [of t]
        by (cases "json_loads L t") auto
    qed
  qed
  moreover have "s \<noteq> [] \<and> json_loads L s = Inl e \<and> json_loads L (fix_json L s) = Inr v \<longrightarrow>
      parse_config L (Some s) = Inr v"
    using recovered [of s e] by (auto simp: recover_json_def)
  moreover have "s \<noteq> [] \<and> json_loads L s = Inl e \<and> json_loads L (fix_json L s) = Inl e' \<longrightarrow>
      parse_config L (Some s) =
        Inr (JObj (case extract_pairs L s of
                     Inr d \<Rightarrow>
                       if d \<noteq> [] then d
                       else (case extract_loose L s of Inr d' \<Rightarrow> d' | Inl x \<Rightarrow> [])
                   | Inl x \<Rightarrow> (case extract_loose L s of Inr d' \<Rightarrow> d' | Inl x \<Rightarrow> [])))"
    using recovered [of s e] by (auto simp: recover_json_def split: sum.splits)
  ultimately show ?thesis
    using none empty strict [of s v] by blast
qed

lemma fix_question_marks: "fix_json sample_lib ''???'' = ''{???}''"
  by (simp add: fix_json_def strip_def isspace_def startswith_def sample_lib_def)

theorem parse_config_returns_witness:
  \<open>parse_config sample_lib None = Inr (JObj [])
   \<and> parse_config sample_lib (Some ''{"url": "http://localhost:8000"}'') =
       Inr (JObj [(''url'', JStr ''http://localhost:8000'')])
   \<and> parse_config sample_lib (Some ''???'') = Inr (JObj [])\<close>
proof -
  have p: "\<forall>p. print_debug sample_lib p = None"
    by (simp add: sample_lib_def)
  have a: \<open>''{"url": "http://localhost:8000"}'' \<noteq> [] \<and>
      json_loads sample_lib ''{"url": "http://localhost:8000"}'' =
        Inr (JObj [(''url'', JStr ''http://localhost:8000'')])\<close>
    by (simp add: sample_lib_def sample_loads_def)
  have b: "''???'' \<noteq> [] \<and> json_loads sample_lib ''???'' = Inl (LibraryError ''JSONDecodeError'')
      \<and> json_loads sample_lib (fix_json sample_lib ''???'') = Inl (LibraryError ''JSONDecodeError'')"
    unfolding fix_question_marks by (simp add: sample_lib_def sample_loads_def)
  have c: "extract_pairs sample_lib ''???'' = Inr []" "extract_loose sample_lib ''???'' = Inr []"
    by (simp_all add: extract_pairs_def extract_loose_def sample_lib_def)
  from parse_config_returns [OF p, of _ _ _ _ None]
  have "parse_config sample_lib None = Inr (JObj [])"
    by blast
  moreover from parse_config_returns [OF p,
      of \<open>''{"url": "http://localhost:8000"}''\<close> "JObj [(''url'', JStr ''http://localhost:8000'')]"] a
  have \<open>parse_config sample_lib (Some ''{"url": "http://localhost:8000"}'') =
       Inr (JObj [(''url'', JStr ''http://localhost:8000'')])\<close>
    by blast
  moreover from parse_config_returns [OF p, of "''???''" _ "LibraryError ''JSONDecodeError''"
      "LibraryError ''JSONDecodeError''"] b
  have "parse_config sample_lib (Some ''???'') =
      Inr (JObj (case extract_pairs sample_lib ''???'' of
                   Inr d \<Rightarrow>
                     if d \<noteq> [] then d
                     else (case extract_loose sample_lib ''???'' of Inr d' \<Rightarrow> d' | Inl x \<Rightarrow> [])
                 | Inl x \<Rightarrow> (case extract_loose sample_lib ''???'' of Inr d' \<Rightarrow> d' | Inl x \<Rightarrow> [])))"
    by blast
  then have "parse_config sample_lib (Some ''???'') = Inr (JObj [])"
    by (simp add: c)
  ultimately show ?thesis
    by blast
qed

text \<open>
  Claim C3 as stated fails on both halves. The text \<^verbatim>\<open>[]\<close> is parsed strictly, and the
  result is the empty list, which is not a mapping. And on a standard output in the ASCII
  encoding the text of the one character with code 233 makes the first debug line raise
  \<^verbatim>\<open>UnicodeEncodeError\<close>, which leaves the parser.
\<close>

theorem parse_config_list_counterexample:
  "parse_config sample_lib (Some ''[]'') = Inr (JArr [])
   \<and> parse_config ascii_stdout_lib (Some [CHR 0xE9]) = Inl UnicodeEncodeError"
  by (simp add: parse_config_def sample_lib_def sample_loads_def ascii_stdout_lib_def
      shown_config_def)

section \<open>Properties of the capability factory\<close>

lemma factory_builtin:
  "tool_type td = ''builtin'' \<Longrightarrow>
   snd (create_tool_instance_from_data L td) =
     map_option (\<lambda>tool_module. [BuiltinTool tool_module])
       (map_of tool_mapping (lower (name td)))"
  by (simp add: create_tool_instance_from_data_def Let_def
      split: prod.splits sum.splits option.splits)

lemma lower_Calculator: "lower ''Calculator'' = ''calculator''"
  by code_simp

lemma lower_use_llm: "lower ''Use_LLM'' = ''use_llm''"
  by code_simp

text \<open>
  Claim C7. For a tool of type \<^verbatim>\<open>builtin\<close> the factory returns the one operation that the
  registry holds for the lower-cased name, as a list of one element, and \<^verbatim>\<open>None\<close> when the
  registry has no such key; two names with the same lower-cased form give the same result.
\<close>

theorem builtin_registry_lookup:
  assumes "tool_type td = ''builtin''"
  shows "snd (create_tool_instance_from_data L td) =
           (case map_of tool_mapping (lower (name td)) of
              Some tool_module \<Rightarrow> Some [BuiltinTool tool_module]
            | None \<Rightarrow> None)
         \<and> (lower (name td) \<notin> fst ` set tool_mapping \<longrightarrow>
              snd (create_tool_instance_from_data L td) = None)
         \<and> (tool_type td' = ''builtin'' \<and> lower (name td') = lower (name td) \<longrightarrow>
              snd (create_tool_instance_from_data L td') =
              snd (create_tool_instance_from_data L td))"
proof -
  have "lower (name td) \<notin> fst ` set tool_mapping \<Longrightarrow>
        map_of tool_mapping (lower (name td)) = None"
    by (simp add: map_of_eq_None_iff)
  then show ?thesis
    using assms by (auto simp: factory_builtin split: option.splits)
qed

theorem builtin_registry_lookup_witness:
  "snd (create_tool_instance_from_data sample_lib tool_calculator) = Some [BuiltinTool Calculator]
   \<and> snd (create_tool_instance_from_data sample_lib
             \<lparr>name = ''Use_LLM'', tool_type = ''builtin'', config = None, agent_id = None\<rparr>) = None"
proof -
  have a: "tool_type tool_calculator = ''builtin''"
    by (simp add: tool_calculator_def)
  have b: "tool_type \<lparr>name = ''Use_LLM'', tool_type = ''builtin'', config = None,
                      agent_id = None\<rparr> = ''builtin''"
    by simp
  show ?thesis
    using builtin_registry_lookup [OF a, of sample_lib] builtin_registry_lookup [OF b, of sample_lib]
    by (simp add: tool_calculator_def lower_Calculator lower_use_llm tool_mapping_def)
qed

lemma filter_disabled_list:
  "filter_disabled (JArr ds) ts = Inr (filter (\<lambda>t. JStr (mcp_tool_name t) \<notin> set ds) ts)"
  by (induction ts) (auto simp: py_in_def)

lemma factory_mcp:
  assumes "tool_type td = ''mcp''"
    and "parse_config L (config td) = Inr cfg"
  shows "create_tool_instance_from_data L td =
           (case mcp_body L (name td) cfg of
              Inr (lg, r) \<Rightarrow> (lg, r)
            | Inl e \<Rightarrow> ([McpInitFailed (name td) e], None))"
  using assms
  by (simp add: create_tool_instance_from_data_def Let_def
      split: prod.splits sum.splits option.splits)

text \<open>
  Claim C6, as amended. For a tool of type \<^verbatim>\<open>mcp\<close> whose configuration parses to a dict, whose
  located command is truthy and whose client starts and reports its tools, the factory
  returns the reported tools without those whose name is in the \<^verbatim>\<open>disabled_tools\<close> list at
  the root of the configuration (all of them when the root has no such key); the list that
  \<^verbatim>\<open>locate_config\<close> returns beside the command is not used.
\<close>

theorem mcp_filter_root_disabled:
  assumes "tool_type td = ''mcp''"
    and "parse_config L (config td) = Inr (JObj d)"
    and "locate_config (JObj d) = (command, args, env, located_disabled)"
    and "truthy command"
    and "mcp_list_tools L command args env = Inr all_tools"
    and "dict_get d ''disabled_tools'' (JArr []) = JArr ds"
  shows "snd (create_tool_instance_from_data L td) =
           Some (map MCPTool (filter (\<lambda>t. JStr (mcp_tool_name t) \<notin> set ds) all_tools))"
proof -
  have "mcp_body L (name td) (JObj d) =
          Inr ([], Some (map MCPTool (filter (\<lambda>t. JStr (mcp_tool_name t) \<notin> set ds) all_tools)))"
    using assms(3-6)
    by (cases "ds = []"; cases "all_tools = []")
       (simp_all add: mcp_body_def config_get_disabled_def filter_disabled_list
          del: locate_config.simps)
  then show ?thesis
    using factory_mcp [OF assms(1,2)] by simp
qed

lemma parse_fetch_root:
  "parse_config sample_lib (config tool_fetch_root) =
     Inr (JObj [(''command'', JStr ''uvx''), (''args'', JArr [JStr ''mcp-server-fetch'']),
                (''disabled_tools'', JArr [JStr ''fetch''])])"
  by (simp add: parse_config_def sample_lib_def sample_loads_def tool_fetch_root_def)

theorem mcp_filter_root_disabled_witness:
  "snd (create_tool_instance_from_data sample_lib tool_fetch_root)
     = Some [MCPTool (MCPAgentTool ''search'')]"
proof -
  have a: "tool_type tool_fetch_root = ''mcp''"
    by (simp add: tool_fetch_root_def)
  have c: "locate_config (JObj [(''command'', JStr ''uvx''),
              (''args'', JArr [JStr ''mcp-server-fetch'']),
              (''disabled_tools'', JArr [JStr ''fetch''])])
           = (JStr ''uvx'', JArr [JStr ''mcp-server-fetch''], JObj [], JArr [JStr ''fetch''])"
    by (simp add: dict_get_def)
  have d: "truthy (JStr ''uvx'')"
    by simp
  have e: "mcp_list_tools sample_lib (JStr ''uvx'') (JArr [JStr ''mcp-server-fetch'']) (JObj [])
           = Inr [MCPAgentTool ''fetch'', MCPAgentTool ''search'']"
    by (simp add: sample_lib_def)
  have f: "dict_get [(''command'', JStr ''uvx''), (''args'', JArr [JStr ''mcp-server-fetch'']),
              (''disabled_tools'', JArr [JStr ''fetch''])] ''disabled_tools'' (JArr [])
           = JArr [JStr ''fetch'']"
    by (simp add: dict_get_def)
  show ?thesis
    using mcp_filter_root_disabled [OF a parse_fetch_root c d e f] by simp
qed

text \<open>
  Claim C6 as stated fails: here the command is found one level down, \<^verbatim>\<open>locate_config\<close>
  returns the list \<^verbatim>\<open>["fetch"]\<close> beside it, the client reports \<^verbatim>\<open>fetch\<close> and \<^verbatim>\<open>search\<close>, and
  the factory returns both.
\<close>

theorem mcp_filter_nested_counterexample:
  "snd (create_tool_instance_from_data sample_lib tool_fetch_nested)
     = Some [MCPTool (MCPAgentTool ''fetch''), MCPTool (MCPAgentTool ''search'')]
   \<and> locate_config (JObj [(''mcpServers'', JObj [(''web'',
        JObj [(''command'', JStr ''uvx''), (''disabled_tools'', JArr [JStr ''fetch''])])])])
     = (JStr ''uvx'', JArr [], JObj [], JArr [JStr ''fetch''])"
  by (simp add: create_tool_instance_from_data_def tool_fetch_nested_def parse_config_def
      sample_lib_def sample_loads_def mcp_body_def config_get_disabled_def dict_get_def
      all_none_def)












section \<open>Properties of the orchestrator prompt\<close>

lemma edge_line_sublist:
  assumes "e \<in> set es"
  shows "sublist (f e) (pre @ concat (map f es) @ post)"
proof -
  from assms obtain xs ys where "es = xs @ e # ys"
    by (auto dest: split_list)
  then have "pre @ concat (map f es) @ post
      = (pre @ concat (map f xs)) @ f e @ (concat (map f ys) @ post)"
    by simp
  then show ?thesis
    by (metis sublist_appendI)
qed

text \<open>
  Claim C1, as amended. For every edge of the graph the generated prompt contains the line
  \<^verbatim>\<open>- You can from <source> send the result to the <target>\<close>, where the source is
  \<^verbatim>\<open>the initial input\<close> when the source node has type \<^verbatim>\<open>input\<close>, the target is
  \<^verbatim>\<open>the user as final response\<close> when the target node has type \<^verbatim>\<open>output\<close>, and either is
  otherwise the name of the node's agent or tool (\<^verbatim>\<open>Node <id>\<close> without a reference).
\<close>

theorem prompt_lists_every_edge:
  assumes "(s, t) \<in> set (edges ctx)"
  shows "sublist
     (''- You can from ''
      @ (if lookup_type (nodes ctx) s = Some ''input'' then ''the initial input''
         else lookup_name (nodes ctx) s)
      @ '' send the result to the ''
      @ (if lookup_type (nodes ctx) t = Some ''output'' then ''the user as final response''
         else lookup_name (nodes ctx) t)
      @ ''\<newline>'')
     (generate_workflow_prompt ctx)"
proof -
  have "sublist (edge_line (nodes ctx) (s, t)) (generate_workflow_prompt ctx)"
    unfolding generate_workflow_prompt_def
    using edge_line_sublist [OF assms, of "edge_line (nodes ctx)"
        "prompt_head ctx @ concat (map node_line (nodes ctx)) @ ''\<newline>### Edges:\<newline>''"
        prompt_instructions]
    by simp
  then show ?thesis
    by (simp add: edge_line_def source_name_def target_name_def)
qed

theorem prompt_lists_every_edge_witness:
  "sublist ''- You can from the initial input send the result to the Summarizer\<newline>''
     (generate_workflow_prompt chain_graph)
   \<and> sublist ''- You can from Summarizer send the result to the the user as final response\<newline>''
     (generate_workflow_prompt chain_graph)
   \<and> sublist ''- You can from A send the result to the B\<newline>''
     (generate_workflow_prompt two_agents)"
proof -
  have a: "(''n1'', ''n2'') \<in> set (edges chain_graph)"
    and b: "(''n2'', ''n3'') \<in> set (edges chain_graph)"
    by (simp_all add: chain_graph_def)
  have c: "(''a'', ''b'') \<in> set (edges two_agents)"
    by (simp add: two_agents_def)
  have n: "nodes chain_graph =
      [(''n1'', \<lparr>node_type = ''input'', node_reference = None\<rparr>),
       (''n2'', \<lparr>node_type = ''agent'', node_reference = Some (AgentRef summarizer)\<rparr>),
       (''n3'', \<lparr>node_type = ''output'', node_reference = None\<rparr>)]"
    by (simp add: chain_graph_def)
  have m: "nodes two_agents =
      [(''a'', \<lparr>node_type = ''agent'', node_reference = Some (AgentRef agent_A)\<rparr>),
       (''b'', \<lparr>node_type = ''agent'', node_reference = Some (AgentRef agent_B)\<rparr>)]"
    by (simp add: two_agents_def)
  show ?thesis
    using prompt_lists_every_edge [OF a] prompt_lists_every_edge [OF b]
      prompt_lists_every_edge [OF c]
    unfolding n m
    by (simp add: lookup_type_def lookup_name_def node_name_def reference_name_def
        summarizer_def agent_A_def agent_B_def)
qed

lemma sublist_tail: "sublist (c # w) p \<Longrightarrow> sublist w p"
proof -
  assume "sublist (c # w) p"
  then obtain ps ss where "p = ps @ (c # w) @ ss"
    by (auto simp: sublist_def)
  then have "p = (ps @ [c]) @ w @ ss"
    by simp
  then show ?thesis
    by (metis sublist_appendI)
qed

lemma two_agents_prompt: "generate_workflow_prompt two_agents =
''# Workflow: pair\<newline>\<newline>None\<newline>\<newline>## Your Role\<newline>You are the Workflow Orchestrator responsible for managing the execution of this workflow. You receive user messages and route them through the workflow according to the graph structure below.\<newline>\<newline>## Workflow Graph Structure\<newline>### Nodes:\<newline>- A (ID: a, Type: agent)\<newline>- B (ID: b, Type: agent)\<newline>\<newline>### Edges:\<newline>- You can from A send the result to the B\<newline>\<newline>## Instructions\<newline>1. When you receive a user message, identify the appropriate starting point in the workflow.\<newline>2. Route the message through the workflow according to the graph structure.\<newline>3. Each agent or tool in the workflow will process the message and produce a response.\<newline>4. Follow the graph edges to determine the next node (agent or tool) to invoke.\<newline>5. For agent nodes, use the corresponding agent tool to process the message.\<newline>6. For tool nodes, use the corresponding tool directly to process the message.\<newline>7. Return the final response to the user.\<newline>''"
  by (simp add: generate_workflow_prompt_def two_agents_def prompt_head_def prompt_instructions_def
      node_line_def edge_line_def source_name_def target_name_def lookup_type_def lookup_name_def
      node_name_def reference_name_def agent_A_def agent_B_def py_str_def)

text \<open>
  Claim C1 as stated fails: for the two agents A and B with the edge from A to B, the
  prompt has no sentence \<^verbatim>\<open>you may send the result from A to B\<close>, with either
  capitalisation of its first letter; the line it has is the one above.
\<close>

theorem prompt_wording_counterexample:
  "\<not> sublist ''you may send the result from A to B'' (generate_workflow_prompt two_agents)
   \<and> \<not> sublist ''You may send the result from A to B'' (generate_workflow_prompt two_agents)"
proof -
  have "\<not> sublist ''ou may send the result from A to B'' (generate_workflow_prompt two_agents)"
    unfolding two_agents_prompt by code_simp
  then show ?thesis
    using sublist_tail [of _ "''ou may send the result from A to B''"
        "generate_workflow_prompt two_agents"]
    by auto
qed

section \<open>Properties of the set-up of the worker\<close>

lemma create_nodes_agents:
  "snd (create_nodes_loop L ns) = Inr (agents, tls) \<Longrightarrow>
   agents = List.map_filter (\<lambda>p. snd (create_agent L (snd p)))
              (filter (\<lambda>p. node_type (snd p) = ''agent'') ns)"
proof (induction ns arbitrary: agents tls)
  case Nil
  then show ?case by simp
next
  case (Cons p ns)
  obtain node_id nd where p: "p = (node_id, nd)" by (cases p)
  show ?case
  proof (cases "node_type nd = ''agent''")
    case True
    with Cons p show ?thesis
      by (auto simp: Let_def split: prod.splits option.splits sum.splits)
  next
    case False
    with Cons p show ?thesis
      by (auto simp: Let_def split: prod.splits option.splits sum.splits if_splits)
  qed
qed

lemma map_filter_member:
  "a \<in> set (List.map_filter f xs) \<Longrightarrow> \<exists>x\<in>set xs. f x = Some a"
  by (auto simp: List.map_filter_def)

lemma create_agent_some:
  "snd (create_agent L nd) = Some a \<Longrightarrow>
   \<exists>ar. node_reference nd = Some (AgentRef ar) \<and> system_prompt a = a_prompt ar
        \<and> labels a = Some (a_name ar, a_description ar)"
  by (auto simp: create_agent_def Let_def split: option.splits reference.splits prod.splits)

lemma create_orchestrator_prompt:
  "create_orchestrator L ctx agents tls = Inr orch \<Longrightarrow>
   system_prompt orch = Some (generate_workflow_prompt ctx) \<and> labels orch = None"
  by (auto simp: create_orchestrator_def Let_def split: sum.splits option.splits if_splits)

lemma chain_nodes:
  "create_nodes sample_lib chain_graph =
     ([], Inr ([StrandsAgent None (Some ''Summarize the text.'') [] (Some (''Summarizer'', None))], []))"
  by (simp add: create_nodes_def chain_graph_def create_agent_def summarizer_def resolve_model_def
      sample_lib_def)

lemma two_agents_nodes:
  "create_nodes sample_lib two_agents =
     ([], Inr ([StrandsAgent None (Some ''Do A.'') [] (Some (''A'', None)),
                StrandsAgent None (Some ''Do B.'') [] (Some (''B'', None))], []))"
  by (simp add: create_nodes_def two_agents_def create_agent_def agent_A_def agent_B_def
      resolve_model_def sample_lib_def)

lemma chain_setup:
  "setup_orchestrator sample_lib chain_graph =
     Inr (StrandsAgent None (Some ''Summarize the text.'') [] (Some (''Summarizer'', None)))"
  by (simp add: setup_orchestrator_def chain_nodes)


text \<open>
  Claim C2, as amended. The orchestrator is synthesized exactly when the materialization of
  the nodes gives more than one live agent. When it gives exactly one, whatever the edges,
  that agent is the orchestrator itself, and its system prompt is the prompt of the agent
  record of an agent node, unchanged; a synthesized orchestrator has the generated prompt.
\<close>

theorem bypass_on_single_live_agent:
  assumes "snd (create_nodes L ctx) = Inr (agents, tls)"
  shows "(agents = [a] \<longrightarrow>
            setup_orchestrator L ctx = Inr a
            \<and> (\<exists>node_id nd ar. (node_id, nd) \<in> set (nodes ctx) \<and> node_type nd = ''agent''
                 \<and> node_reference nd = Some (AgentRef ar) \<and> system_prompt a = a_prompt ar))
       \<and> (1 < length agents \<longrightarrow>
            setup_orchestrator L ctx = create_orchestrator L ctx agents tls
            \<and> (\<forall>orch. create_orchestrator L ctx agents tls = Inr orch \<longrightarrow>
                  system_prompt orch = Some (generate_workflow_prompt ctx)))"
proof (intro conjI impI allI)
  assume "agents = [a]"
  with assms show "setup_orchestrator L ctx = Inr a"
    by (simp add: setup_orchestrator_def)
next
  assume one: "agents = [a]"
  from assms have "agents = List.map_filter (\<lambda>p. snd (create_agent L (snd p)))
              (filter (\<lambda>p. node_type (snd p) = ''agent'') (nodes ctx))"
    unfolding create_nodes_def by (rule create_nodes_agents)
  with one have "a \<in> set (List.map_filter (\<lambda>p. snd (create_agent L (snd p)))
              (filter (\<lambda>p. node_type (snd p) = ''agent'') (nodes ctx)))"
    by (metis list.set_intros(1))
  from map_filter_member [OF this] obtain p
    where q: "p \<in> set (filter (\<lambda>p. node_type (snd p) = ''agent'') (nodes ctx))"
      "snd (create_agent L (snd p)) = Some a"
    by blast
  then have p: "p \<in> set (nodes ctx)" "node_type (snd p) = ''agent''"
      "snd (create_agent L (snd p)) = Some a"
    by simp_all
  from create_agent_some [OF p(3)] obtain ar
    where "node_reference (snd p) = Some (AgentRef ar)" "system_prompt a = a_prompt ar"
    by blast
  with p show "\<exists>node_id nd ar. (node_id, nd) \<in> set (nodes ctx) \<and> node_type nd = ''agent''
                 \<and> node_reference nd = Some (AgentRef ar) \<and> system_prompt a = a_prompt ar"
    by (metis prod.collapse)
next
  assume "1 < length agents"
  with assms show "setup_orchestrator L ctx = create_orchestrator L ctx agents tls"
    by (simp add: setup_orchestrator_def)
next
  fix orch
  assume "create_orchestrator L ctx agents tls = Inr orch"
  then show "system_prompt orch = Some (generate_workflow_prompt ctx)"
    by (simp add: create_orchestrator_prompt)
qed

theorem bypass_on_single_live_agent_witness:
  "setup_orchestrator sample_lib chain_graph =
     Inr (StrandsAgent None (Some ''Summarize the text.'') [] (Some (''Summarizer'', None)))
   \<and> setup_orchestrator sample_lib two_agents =
       create_orchestrator sample_lib two_agents
         [StrandsAgent None (Some ''Do A.'') [] (Some (''A'', None)),
          StrandsAgent None (Some ''Do B.'') [] (Some (''B'', None))] []"
proof -
  have a: "snd (create_nodes sample_lib chain_graph) =
      Inr ([StrandsAgent None (Some ''Summarize the text.'') [] (Some (''Summarizer'', None))], [])"
    by (simp add: chain_nodes)
  have b: "snd (create_nodes sample_lib two_agents) =
      Inr ([StrandsAgent None (Some ''Do A.'') [] (Some (''A'', None)),
            StrandsAgent None (Some ''Do B.'') [] (Some (''B'', None))], [])"
    by (simp add: two_agents_nodes)
  show ?thesis
    using bypass_on_single_live_agent [OF a] bypass_on_single_live_agent [OF b]
    by simp
qed

text \<open>
  Claim C2 as stated fails on its second half: the graph input, Summarizer, output has two
  edges, and its single agent is used directly as the orchestrator, with its own prompt.
\<close>

theorem bypass_with_edges_counterexample:
  "setup_orchestrator sample_lib chain_graph =
     Inr (StrandsAgent None (Some ''Summarize the text.'') [] (Some (''Summarizer'', None)))
   \<and> edges chain_graph = [(''n1'', ''n2''), (''n2'', ''n3'')]"
  by (simp add: chain_setup) (simp add: chain_graph_def)

lemma no_agent_nodes:
  "\<forall>p\<in>set (nodes ctx). node_type (snd p) \<noteq> ''agent'' \<Longrightarrow>
   snd (create_nodes L ctx) = Inr (agents, tls) \<Longrightarrow> agents = []"
proof -
  assume a: "\<forall>p\<in>set (nodes ctx). node_type (snd p) \<noteq> ''agent''"
    and b: "snd (create_nodes L ctx) = Inr (agents, tls)"
  from a have "filter (\<lambda>p. node_type (snd p) = ''agent'') (nodes ctx) = []"
    by (simp add: filter_empty_conv)
  with create_nodes_agents [OF b [unfolded create_nodes_def]] show ?thesis
    by simp
qed

lemma no_agents_nodes:
  "create_nodes sample_lib no_agents = ([], Inr ([], [[BuiltinTool Calculator]]))"
  by (simp add: create_nodes_def no_agents_def create_tool_def tool_calculator_def
      create_tool_instance_from_data_def parse_config_def empty_config_def sample_lib_def
      lower_Calculator tool_mapping_def)

text \<open>
  Claim C10. When the materialization of the nodes gives no live agent, the set-up of the
  worker raises \<^verbatim>\<open>IndexError\<close> at \<^verbatim>\<open>agents[0]\<close>, which nothing handles: the worker ends with
  nothing on its output channel, the \<^verbatim>\<open>STARTED\<close> sentinel is never put, whatever is sent to
  the worker, and the \<^verbatim>\<open>get\<close> of the caller never returns.
\<close>

theorem no_agents_no_started:
  assumes "snd (create_nodes L ctx) = Inr ([], tls)"
  shows "processing_thread L ctx inputs =
           \<lparr>history = conversation_history ctx, output_queue = [], invoked = [], clock = 0,
            status = Crashed IndexError\<rparr>
         \<and> ''_Q_E_E_STARTED'' \<notin> set (output_queue (processing_thread L ctx inputs))
         \<and> start_workflow L ctx = None"
  using assms by (simp add: processing_thread_def setup_orchestrator_def start_workflow_def)

theorem no_agents_no_started_witness:
  "processing_thread sample_lib no_agents [Inr ''hello''] =
           \<lparr>history = Some [], output_queue = [], invoked = [], clock = 0,
            status = Crashed IndexError\<rparr>
   \<and> start_workflow sample_lib no_agents = None"
proof -
  have "snd (create_nodes sample_lib no_agents) = Inr ([], [[BuiltinTool Calculator]])"
    by (simp add: no_agents_nodes)
  from no_agents_no_started [OF this, of "[Inr ''hello'']"] show ?thesis
    by (simp add: no_agents_def)
qed

section \<open>Properties of the loop of the worker\<close>






text \<open>Decoding undoes the serialization, character by character, entry by entry.\<close>

lemma hex_value_digit: "n < 16 \<Longrightarrow> hex_value (hex_digit n) = Some n"
proof -
  assume "n < 16"
  then have "n \<in> set [0..<16]"
    by simp
  moreover have "list_all (\<lambda>k. hex_value (hex_digit k) = Some k) [0..<16]"
    by code_simp
  ultimately show ?thesis
    unfolding list_all_iff by blast
qed

lemma hex_digit_mod: "hex_digit n = hex_digit (n mod 16)"
  by (simp add: hex_digit_def)

lemma scan_plain:
  assumes "scan_string t = Some (s, r)"
    and "32 \<le> (of_char c :: nat)" "(of_char c :: nat) \<noteq> 34" "(of_char c :: nat) \<noteq> 92"
  shows "scan_string (c # t) = Some (c # s, r)"
  using assms by simp

lemma scan_simple_escape:
  assumes "scan_string t = Some (s, r)" and "unescape d = Some c" and "(of_char d :: nat) \<noteq> 117"
  shows "scan_string (CHR 0x5C # d # t) = Some (c # s, r)"
  using assms by simp

lemma scan_unicode:
  assumes "scan_string t = Some (s, r)"
  shows "scan_string (CHR 0x5C # CHR ''u'' # CHR ''0'' # CHR ''0'' # hex_digit (of_char c div 16)
            # hex_digit (of_char c) # t) = Some (c # s, r)"
proof -
  let ?n = "of_char c :: nat"
  have lt: "?n < 256" by simp
  then have "?n div 16 < 16" by arith
  then have h: "hex_value (hex_digit (?n div 16)) = Some (?n div 16)"
    by (rule hex_value_digit)
  have l: "hex_value (hex_digit ?n) = Some (?n mod 16)"
    using hex_value_digit [of "?n mod 16"] hex_digit_mod [of ?n] by simp
  have z: "hex_value CHR ''0'' = Some 0"
    by (simp add: hex_value_def)
  have c: "char_of (16 * (?n div 16) + ?n mod 16) = c"
    by simp
  show ?thesis
    by (simp add: assms h l z c)
qed

lemma code_quote: "(of_char c :: nat) = 34 \<Longrightarrow> c = CHR 0x22"
proof -
  assume "(of_char c :: nat) = 34"
  moreover have "(of_char (CHR 0x22) :: nat) = 34"
    by simp
  ultimately have "(of_char c :: nat) = of_char (CHR 0x22)"
    by simp
  then show ?thesis
    by (simp only: of_char_eq_iff)
qed

lemma code_backslash: "(of_char c :: nat) = 92 \<Longrightarrow> c = CHR 0x5C"
proof -
  assume "(of_char c :: nat) = 92"
  moreover have "(of_char (CHR 0x5C) :: nat) = 92"
    by simp
  ultimately have "(of_char c :: nat) = of_char (CHR 0x5C)"
    by simp
  then show ?thesis
    by (simp only: of_char_eq_iff)
qed

lemma code_char: "(of_char c :: nat) = n \<Longrightarrow> char_of n = c"
  by auto

lemma scan_esc_char:
  assumes "scan_string t = Some (s, r)"
  shows "scan_string (esc_char c @ t) = Some (c # s, r)"
proof -
  let ?n = "of_char c :: nat"
  show ?thesis
  proof (cases "?n = 34 \<or> ?n = 92")
    case True
    then show ?thesis
      using assms by (auto simp: esc_char_def unescape_def dest: code_quote code_backslash)
  next
    case False
    note plain = this
    show ?thesis
    proof (cases "?n = 10 \<or> ?n = 13 \<or> ?n = 9 \<or> ?n = 8 \<or> ?n = 12")
      case True
      then have "unescape (esc_char c ! 1) = Some c \<and> esc_char c = [CHR 0x5C, esc_char c ! 1]
          \<and> (of_char (esc_char c ! 1) :: nat) \<noteq> 117"
        by (auto simp: esc_char_def unescape_def intro: code_char)
      then show ?thesis
        using scan_simple_escape [OF assms, of "esc_char c ! 1" c]
        by (metis append_Cons append_Nil)
    next
      case False
      show ?thesis
      proof (cases "32 \<le> ?n \<and> ?n \<le> 126")
        case True
        with plain False have "esc_char c = [c]"
          by (auto simp: esc_char_def Let_def)
        with True plain show ?thesis
          using scan_plain [OF assms, of c] by simp
      next
        case outside: False
        with plain False have "esc_char c =
            [CHR 0x5C, CHR ''u'', CHR ''0'', CHR ''0'', hex_digit (?n div 16), hex_digit ?n]"
          by (auto simp: esc_char_def Let_def)
        then show ?thesis
          using scan_unicode [OF assms, of c] by simp
      qed
    qed
  qed
qed

lemma scan_escaped:
  "scan_string (concat (map esc_char s) @ CHR 0x22 # rest) = Some (s, rest)"
  by (induction s) (simp_all add: scan_esc_char)

lemma expect_append: "expect p (p @ s) = Some s"
  by (simp add: expect_def)

lemma dumps_entry_text:
  \<open>dumps_entry e =
     ''{"role": "'' @ concat (map esc_char (role e)) @ CHR 0x22 #
     '', "content": "'' @ concat (map esc_char (content e)) @ CHR 0x22 #
     '', "timestamp": "'' @ concat (map esc_char (timestamp e)) @ CHR 0x22 # ''}''\<close>
  by (simp add: dumps_entry_def dumps_str_def esc_char_def)

lemma scan_dumps_entry: "scan_entry (dumps_entry e @ rest) = Some (e, rest)"
proof -
  have \<open>dumps_entry e @ rest =
     ''{"role": "'' @ (concat (map esc_char (role e)) @ CHR 0x22 #
     ('', "content": "'' @ (concat (map esc_char (content e)) @ CHR 0x22 #
     ('', "timestamp": "'' @ (concat (map esc_char (timestamp e)) @ CHR 0x22 # (''}'' @ rest))))))\<close>
    by (simp add: dumps_entry_text)
  then show ?thesis
    unfolding scan_entry_def
    by (simp only: expect_append scan_escaped option.case prod.case) simp
qed

lemma dumps_entry_head: "\<exists>t. dumps_entry e = CHR ''{'' # t"
  by (simp add: dumps_entry_text)

lemma scan_joined:
  "length es < n \<Longrightarrow>
   scan_entries n (join '', '' (map dumps_entry (e # es)) @ '']'') = Some (e # es)"
proof (induction es arbitrary: e n)
  case Nil
  then obtain m where "n = Suc m" by (cases n) auto
  then show ?case by (simp add: scan_dumps_entry)
next
  case (Cons e' es)
  then obtain m where n: "n = Suc m" and m: "length es < m" by (cases n) auto
  have "join '', '' (map dumps_entry (e # e' # es)) @ '']''
      = dumps_entry e @ ('', '' @ (join '', '' (map dumps_entry (e' # es)) @ '']''))"
    by simp
  then show ?case
    using Cons.IH [OF m, of e'] n
    by (simp add: scan_dumps_entry expect_def del: join.simps)
qed

lemma length_join: "length xs \<le> Suc (length (join sep (map dumps_entry xs)))"
proof (induction xs rule: induct_list012)
  case (3 x y zs)
  obtain t where "dumps_entry x = CHR ''{'' # t"
    using dumps_entry_head by blast
  with 3 show ?case by simp
qed simp_all

lemma loads_dumps_history: "loads_history (dumps_history h) = Some h"
proof (cases h)
  case Nil
  then show ?thesis by (simp add: loads_history_def dumps_history_def)
next
  case (Cons e es)
  obtain t where t: "dumps_entry e = CHR ''{'' # t"
    using dumps_entry_head by blast
  have ne: "dumps_history h \<noteq> ''[]''"
    using Cons t by (cases es) (simp_all add: dumps_history_def)
  have "length es < length (dumps_history h)"
    using length_join [of h "'', ''"] Cons by (simp add: dumps_history_def)
  from scan_joined [OF this, of e] ne show ?thesis
    using Cons by (simp add: loads_history_def dumps_history_def expect_def del: join.simps)
qed

text \<open>
  Claim C9. On the \<^verbatim>\<open>RETRIEVE\<close> sentinel the worker puts one message on the output channel,
  the \<^verbatim>\<open>HISTORY\<close> marker followed by the serialization of its history (of the empty list
  while it has none), and changes nothing else: the history, the calls of the orchestrator,
  the clock and the status are as before. The serialization is the one the caller decodes:
  decoding it gives the history back. The empty history is serialized as \<^verbatim>\<open>[]\<close>, so a
  worker that receives \<^verbatim>\<open>RETRIEVE\<close> first answers with the marker followed by \<^verbatim>\<open>[]\<close>.
\<close>

theorem retrieve_frame:
  "worker_loop L orchestrator [Inr ''_Q_E_E_RETRIEVE''] w =
     w\<lparr>output_queue := output_queue w
        @ [''_Q_E_E_HISTORY'' @ dumps_history (case history w of None \<Rightarrow> [] | Some h \<Rightarrow> h)]\<rparr>
   \<and> loads_history (dumps_history h') = Some h'
   \<and> dumps_history [] = ''[]''
   \<and> (setup_orchestrator L ctx = Inr orchestrator
        \<and> (conversation_history ctx = Some [] \<or> conversation_history ctx = None) \<longrightarrow>
        processing_thread L ctx [Inr ''_Q_E_E_RETRIEVE''] =
          \<lparr>history = conversation_history ctx,
           output_queue = [''_Q_E_E_STARTED'', ''_Q_E_E_HISTORY[]''],
           invoked = [], clock = 0, status = Waiting\<rparr>)"
proof (intro conjI)
  show "worker_loop L orchestrator [Inr ''_Q_E_E_RETRIEVE''] w =
     w\<lparr>output_queue := output_queue w
        @ [''_Q_E_E_HISTORY'' @ dumps_history (case history w of None \<Rightarrow> [] | Some h \<Rightarrow> h)]\<rparr>"
    by (simp add: handle_retrieve_def current_history_def)
  show "loads_history (dumps_history h') = Some h'"
    by (rule loads_dumps_history)
  show "dumps_history [] = ''[]''"
    by (simp add: dumps_history_def)
  show "setup_orchestrator L ctx = Inr orchestrator
        \<and> (conversation_history ctx = Some [] \<or> conversation_history ctx = None) \<longrightarrow>
        processing_thread L ctx [Inr ''_Q_E_E_RETRIEVE''] =
          \<lparr>history = conversation_history ctx,
           output_queue = [''_Q_E_E_STARTED'', ''_Q_E_E_HISTORY[]''],
           invoked = [], clock = 0, status = Waiting\<rparr>"
    by (auto simp: processing_thread_def handle_retrieve_def current_history_def
        dumps_history_def)
qed

lemma dumps_after_hello:
  \<open>dumps_history
     [\<lparr>role = ''user'', content = ''hello'', timestamp = ''"2025-01-01 00:00:00+00:00"''\<rparr>,
      \<lparr>role = ''assistant'', content = ''Hi'', timestamp = ''"2025-01-01 00:00:00+00:00"''\<rparr>] =
   ''[{"role": "user", "content": "hello", "timestamp": "'' @ [CHR 0x5C]
   @ ''"2025-01-01 00:00:00+00:00'' @ [CHR 0x5C]
   @ ''""}, {"role": "assistant", "content": "Hi", "timestamp": "'' @ [CHR 0x5C]
   @ ''"2025-01-01 00:00:00+00:00'' @ [CHR 0x5C] @ ''""}]''\<close>
  by (simp add: dumps_history_def dumps_entry_def dumps_str_def esc_char_def)

theorem retrieve_frame_witness:
  \<open>processing_thread sample_lib chain_graph [Inr ''_Q_E_E_RETRIEVE''] =
     \<lparr>history = Some [],
      output_queue = [''_Q_E_E_STARTED'', ''_Q_E_E_HISTORY[]''],
      invoked = [], clock = 0, status = Waiting\<rparr>
   \<and> worker_loop sample_lib
         (StrandsAgent None (Some ''Summarize the text.'') [] (Some (''Summarizer'', None)))
         [Inr ''_Q_E_E_RETRIEVE''] after_hello =
       after_hello\<lparr>output_queue :=
         [''_Q_E_E_STARTED'', ''data: {"delta": {"text": "Hi"}}\<newline>end'', ''_Q_E_E_ANSWERED'',
          ''_Q_E_E_HISTORY[{"role": "user", "content": "hello", "timestamp": "'' @ [CHR 0x5C]
          @ ''"2025-01-01 00:00:00+00:00'' @ [CHR 0x5C]
          @ ''""}, {"role": "assistant", "content": "Hi", "timestamp": "'' @ [CHR 0x5C]
          @ ''"2025-01-01 00:00:00+00:00'' @ [CHR 0x5C] @ ''""}]'']\<rparr>
   \<and> loads_history
         (''[{"role": "user", "content": "hello", "timestamp": "'' @ [CHR 0x5C]
          @ ''"2025-01-01 00:00:00+00:00'' @ [CHR 0x5C]
          @ ''""}, {"role": "assistant", "content": "Hi", "timestamp": "'' @ [CHR 0x5C]
          @ ''"2025-01-01 00:00:00+00:00'' @ [CHR 0x5C] @ ''""}]'') =
       history after_hello\<close>
proof -
  let ?o = "StrandsAgent None (Some ''Summarize the text.'') [] (Some (''Summarizer'', None))"
  let ?h = \<open>[\<lparr>role = ''user'', content = ''hello'', timestamp = ''"2025-01-01 00:00:00+00:00"''\<rparr>,
      \<lparr>role = ''assistant'', content = ''Hi'', timestamp = ''"2025-01-01 00:00:00+00:00"''\<rparr>]\<close>
  note r = retrieve_frame [of sample_lib ?o after_hello ?h chain_graph]
  have h: "history after_hello = Some ?h"
    by (simp add: after_hello_def)
  have c: "conversation_history chain_graph = Some []"
    by (simp add: chain_graph_def)
  from r chain_setup c
  have first: "processing_thread sample_lib chain_graph [Inr ''_Q_E_E_RETRIEVE''] =
     \<lparr>history = Some [],
      output_queue = [''_Q_E_E_STARTED'', ''_Q_E_E_HISTORY[]''],
      invoked = [], clock = 0, status = Waiting\<rparr>"
    by simp
  from r have "worker_loop sample_lib ?o [Inr ''_Q_E_E_RETRIEVE''] after_hello =
     after_hello\<lparr>output_queue := output_queue after_hello
        @ [''_Q_E_E_HISTORY'' @ dumps_history (case history after_hello of None \<Rightarrow> [] | Some h \<Rightarrow> h)]\<rparr>"
    by blast
  then have second: "worker_loop sample_lib ?o [Inr ''_Q_E_E_RETRIEVE''] after_hello =
     after_hello\<lparr>output_queue := output_queue after_hello @ [''_Q_E_E_HISTORY'' @ dumps_history ?h]\<rparr>"
    by (simp add: h)
  from r have third: "loads_history (dumps_history ?h) = Some ?h"
    by blast
  show ?thesis
    using first second third
    unfolding dumps_after_hello h
    by (simp add: after_hello_def)
qed

end
